theory Spec2Isabelle
  imports Complex_Main "HOL-Library.Word" "HOL-Library.Sublist" "HOL-Library.Monad_Syntax"
begin

section \<open>Strings\<close>

text \<open>
  A JavaScript string is a sequence of UTF-16 code units. String literals of the program
  that are plain ASCII are written with \<open>ascii\<close>.
\<close>

type_synonym jstring = "16 word list"

definition ascii :: "string \<Rightarrow> jstring" where
  "ascii s = map of_char s"

text \<open>
  \<open>String.prototype.trim\<close> removes the code units that ECMAScript calls WhiteSpace
  (TAB, VT, FF, ZWNBSP and the Unicode space separators) or LineTerminator
  (LF, CR, LS, PS) from both ends.
\<close>

definition isWhiteSpace :: "16 word \<Rightarrow> bool" where
  "isWhiteSpace c = (c \<in> set [0x0009, 0x000A, 0x000B, 0x000C, 0x000D, 0x0020, 0x00A0,
     0x1680, 0x2000, 0x2001, 0x2002, 0x2003, 0x2004, 0x2005, 0x2006, 0x2007, 0x2008,
     0x2009, 0x200A, 0x2028, 0x2029, 0x202F, 0x205F, 0x3000, 0xFEFF])"

definition trim :: "jstring \<Rightarrow> jstring" where
  "trim s = rev (dropWhile isWhiteSpace (rev (dropWhile isWhiteSpace s)))"

text \<open>\<open>String.prototype.includes\<close>: the pattern occurs at some position.\<close>

fun includes_str :: "jstring \<Rightarrow> jstring \<Rightarrow> bool" where
  "includes_str [] p = (p = [])"
| "includes_str (c # s) p = (prefix p (c # s) \<or> includes_str s p)"

section \<open>Status classifier\<close>

record StatusEmojiConfig =
  statusEmoji :: jstring
  statusEmojiUnicode :: jstring

text \<open>The argument is \<open>string | undefined\<close>; \<open>None\<close> is \<open>undefined\<close>.\<close>

definition normalizeEmoji :: "jstring option \<Rightarrow> jstring" where
  "normalizeEmoji emoji = trim (case emoji of None \<Rightarrow> [] | Some e \<Rightarrow> e)"

definition normalizeText :: "jstring option \<Rightarrow> jstring" where
  "normalizeText text = trim (case text of None \<Rightarrow> [] | Some t \<Rightarrow> t)"

definition isStatusOwnedByScript ::
  "jstring \<Rightarrow> jstring \<Rightarrow> 'a StatusEmojiConfig_scheme \<Rightarrow> bool" where
  "isStatusOwnedByScript text emoji config =
     (let normalizedEmoji = normalizeEmoji (Some emoji) in
      if normalizedEmoji = statusEmoji config \<or> normalizedEmoji = statusEmojiUnicode config
      then (if text = [] \<or> includes_str text (ascii '' - '') then True else False)
      else False)"

definition isEmptySlackStatus :: "jstring \<Rightarrow> jstring \<Rightarrow> bool" where
  "isEmptySlackStatus text emoji =
     (normalizeText (Some text) = [] \<and> normalizeEmoji (Some emoji) = [])"

definition isSafeToOverrideWhenPlayingTrack :: "jstring \<Rightarrow> jstring \<Rightarrow> bool" where
  "isSafeToOverrideWhenPlayingTrack statusText statusEmoji' =
     (statusText = [] \<or> statusEmoji' = [])"

section \<open>JSON values and the cache record\<close>

text \<open>
  A JavaScript number that \<open>JSON.parse\<close> can produce: a finite value (taken as the
  rational it denotes) or an infinity (from an overflowing literal). \<open>NaN\<close> is never
  produced by \<open>JSON.parse\<close>.
\<close>

datatype jsnum = Finite rat | PosInfinity | NegInfinity

datatype json = JNull | JBool bool | JNumber jsnum | JString jstring
  | JArray "json list" | JObject "(jstring \<times> json) list"

text \<open>
  The entries of the cache. The fields \<open>text\<close>, \<open>emoji\<close> and \<open>expiration\<close> of the
  source carry a prime here.
\<close>

record StatusEntry =
  text' :: jstring
  emoji' :: jstring
  expiration' :: rat

record ObservedStatus = StatusEntry +
  observedAt :: rat

record ScriptStatus = StatusEntry +
  setAt :: rat

record EmptyRead =
  lastSeenAt :: rat
  consecutiveCount :: int

text \<open>
  \<open>passthrough\<close> holds the properties of the parsed object that the schema does not
  name: \<open>cacheSchema\<close> ends in \<open>.passthrough()\<close>, so they stay in the parsed value.
\<close>

record Cache =
  updatedAt :: rat
  lastNonEmptyNonOwned :: "ObservedStatus option"
  emptyRead :: "EmptyRead option"
  lastSetByScript :: "ScriptStatus option"
  passthrough :: "(jstring \<times> json) list"

text \<open>
  The zod checks, applied to the value of a property; \<open>None\<close> as input is
  \<open>undefined\<close> (the property is absent), \<open>None\<close> as output is a failed check.
\<close>

definition z_string :: "json option \<Rightarrow> jstring option" where
  "z_string v = (case v of Some (JString s) \<Rightarrow> Some s | _ \<Rightarrow> None)"

definition z_number_finite_min0 :: "json option \<Rightarrow> rat option" where
  "z_number_finite_min0 v =
     (case v of Some (JNumber (Finite q)) \<Rightarrow> if 0 \<le> q then Some q else None | _ \<Rightarrow> None)"

definition z_number_int_min0 :: "json option \<Rightarrow> int option" where
  "z_number_int_min0 v =
     (case v of
        Some (JNumber (Finite q)) \<Rightarrow>
          if q = of_int \<lfloor>q\<rfloor> \<and> 0 \<le> q then Some \<lfloor>q\<rfloor> else None
      | _ \<Rightarrow> None)"

definition z_optional :: "(json option \<Rightarrow> 'a option) \<Rightarrow> json option \<Rightarrow> 'a option option" where
  "z_optional check v = (case v of None \<Rightarrow> Some None | Some _ \<Rightarrow> map_option Some (check v))"

definition lastNonEmptyNonOwned_schema :: "json option \<Rightarrow> ObservedStatus option" where
  "lastNonEmptyNonOwned_schema v =
     (case v of
        Some (JObject kvs) \<Rightarrow> do {
          t \<leftarrow> z_string (map_of kvs (ascii ''text''));
          e \<leftarrow> z_string (map_of kvs (ascii ''emoji''));
          x \<leftarrow> z_number_finite_min0 (map_of kvs (ascii ''expiration''));
          a \<leftarrow> z_number_finite_min0 (map_of kvs (ascii ''observedAt''));
          Some \<lparr>text' = t, emoji' = e, expiration' = x, observedAt = a\<rparr> }
      | _ \<Rightarrow> None)"

definition emptyRead_schema :: "json option \<Rightarrow> EmptyRead option" where
  "emptyRead_schema v =
     (case v of
        Some (JObject kvs) \<Rightarrow> do {
          a \<leftarrow> z_number_finite_min0 (map_of kvs (ascii ''lastSeenAt''));
          n \<leftarrow> z_number_int_min0 (map_of kvs (ascii ''consecutiveCount''));
          Some \<lparr>lastSeenAt = a, consecutiveCount = n\<rparr> }
      | _ \<Rightarrow> None)"

definition lastSetByScript_schema :: "json option \<Rightarrow> ScriptStatus option" where
  "lastSetByScript_schema v =
     (case v of
        Some (JObject kvs) \<Rightarrow> do {
          t \<leftarrow> z_string (map_of kvs (ascii ''text''));
          e \<leftarrow> z_string (map_of kvs (ascii ''emoji''));
          x \<leftarrow> z_number_finite_min0 (map_of kvs (ascii ''expiration''));
          a \<leftarrow> z_number_finite_min0 (map_of kvs (ascii ''setAt''));
          Some \<lparr>text' = t, emoji' = e, expiration' = x, setAt = a\<rparr> }
      | _ \<Rightarrow> None)"

definition cacheSchema_keys :: "jstring list" where
  "cacheSchema_keys = [ascii ''updatedAt'', ascii ''lastNonEmptyNonOwned'',
     ascii ''emptyRead'', ascii ''lastSetByScript'']"

text \<open>
  \<open>cacheSchema.safeParse\<close>; \<open>None\<close> is \<open>success: false\<close>. Of the properties that
  the schema does not name, zod copies all but one into the result: it never assigns
  the key \<open>__proto__\<close>.
\<close>

definition cacheSchema_safeParse :: "json \<Rightarrow> Cache option" where
  "cacheSchema_safeParse cachePayload =
     (case cachePayload of
        JObject kvs \<Rightarrow> do {
          u \<leftarrow> z_number_finite_min0 (map_of kvs (ascii ''updatedAt''));
          l \<leftarrow> z_optional lastNonEmptyNonOwned_schema (map_of kvs (ascii ''lastNonEmptyNonOwned''));
          r \<leftarrow> z_optional emptyRead_schema (map_of kvs (ascii ''emptyRead''));
          s \<leftarrow> z_optional lastSetByScript_schema (map_of kvs (ascii ''lastSetByScript''));
          Some \<lparr>updatedAt = u, lastNonEmptyNonOwned = l, emptyRead = r, lastSetByScript = s,
            passthrough =
              filter (\<lambda>kv. fst kv \<notin> set cacheSchema_keys \<and> fst kv \<noteq> ascii ''__proto__'')
                kvs\<rparr> }
      | _ \<Rightarrow> None)"

section \<open>Effects\<close>

datatype js_error = Error string

datatype logLevel = DEBUG | INFO | WARN | ERROR

record SlackProfile =
  status_text :: "jstring option"
  status_emoji :: "jstring option"
  status_expiration :: "rat option"

record SlackResponse =
  ok :: bool
  error :: "jstring option"

record SlackProfileGetResponse = SlackResponse +
  profile :: "SlackProfile option"

text \<open>
  What a run does to the outside, in order: a line logged (level and message; the
  metadata object is left out), a timer awaited (milliseconds), a request sent by
  \<open>callSlackApi\<close> (token, method, the \<open>profile\<close> of the body if there is a body), and
  the call of \<open>writeFile\<close> in \<open>saveCache\<close>: the content to write, and the error if
  the call threw. The file holds the content only when the call did not throw.
\<close>

datatype event =
    Log logLevel string
  | Sleep nat
  | SlackApiCall jstring string "SlackProfile option"
  | WriteCacheFile Cache "js_error option"

text \<open>
  An awaited computation: the events it caused, and either the error it threw
  (\<open>Inl\<close>) or its value (\<open>Inr\<close>).
\<close>

type_synonym 'a eff = "event list \<times> (js_error + 'a)"

definition resolve :: "'a \<Rightarrow> 'a eff" where
  "resolve a = ([], Inr a)"

definition reject :: "js_error \<Rightarrow> 'a eff" where
  "reject e = ([], Inl e)"

definition andThen :: "'a eff \<Rightarrow> ('a \<Rightarrow> 'b eff) \<Rightarrow> 'b eff" where
  "andThen m f =
     (case m of
        (es, Inl e) \<Rightarrow> (es, Inl e)
      | (es, Inr a) \<Rightarrow> (case f a of (es', r) \<Rightarrow> (es @ es', r)))"

text \<open>The function \<open>log\<close> of the script.\<close>

definition log' :: "logLevel \<Rightarrow> string \<Rightarrow> unit eff" where
  "log' level message = ([Log level message], Inr ())"

section \<open>Configuration\<close>

text \<open>
  The type \<open>Config\<close>: every field but the token is optional. The fields carry the
  prefix \<open>config_\<close>, the names without it belong to \<open>RuntimeConfig\<close>.
\<close>

record Config =
  slackToken :: jstring
  config_pollIntervalSeconds :: "rat option"
  config_statusEmoji :: "jstring option"
  config_statusEmojiUnicode :: "jstring option"
  config_statusTtlSeconds :: "rat option"
  config_alwaysOverride :: "bool option"
  config_requireTwoEmptyReadsBeforeOverride :: "bool option"
  config_emptyReadConfirmWindowSeconds :: "rat option"
  config_cacheMaxAgeSeconds :: "rat option"
  config_logMaxLines :: "rat option"
  config_logKeepLines :: "rat option"
  config_stdoutLogPath :: "jstring option"
  config_stderrLogPath :: "jstring option"

record RuntimeConfig = StatusEmojiConfig +
  statusTtlSeconds :: rat
  alwaysOverride :: bool
  logMaxLines :: rat
  logKeepLines :: rat
  stdoutLogPath :: jstring
  stderrLogPath :: jstring
  cacheMaxAgeSeconds :: rat
  requireTwoEmptyReadsBeforeOverride :: bool
  emptyReadConfirmWindowSeconds :: rat

definition DEFAULT_CONFIG :: RuntimeConfig where
  "DEFAULT_CONFIG = \<lparr>
     statusEmoji = ascii '':headphones:'',
     statusEmojiUnicode = [0xD83C, 0xDFA7],
     statusTtlSeconds = 120,
     alwaysOverride = False,
     logMaxLines = 5000,
     logKeepLines = 3000,
     stdoutLogPath = ascii ''./spotify-status.log'',
     stderrLogPath = ascii ''./spotify-status.error.log'',
     cacheMaxAgeSeconds = 600,
     requireTwoEmptyReadsBeforeOverride = True,
     emptyReadConfirmWindowSeconds = 600 \<rparr>"

text \<open>The operator \<open>??\<close> on an optional field.\<close>

definition orElse :: "'a option \<Rightarrow> 'a \<Rightarrow> 'a" where
  "orElse v d = (case v of None \<Rightarrow> d | Some a \<Rightarrow> a)"

text \<open>
  \<open>path.join\<close> of the working directory (absolute and normalised, as
  \<open>process.cwd()\<close> returns it) and a file name that has no separator.
\<close>

definition path_join :: "jstring \<Rightarrow> jstring \<Rightarrow> jstring" where
  "path_join dir name =
     (if dir = [] then name
      else if last dir = 0x2F then dir @ name
      else dir @ ascii ''/'' @ name)"

section \<open>The world of one run\<close>

text \<open>
  The file behind \<open>getCacheFilePath\<close> as \<open>loadCache\<close> finds it: not there
  (\<open>existsSync\<close> is false), there but \<open>readFile\<close> throws, read but \<open>JSON.parse\<close>
  throws, or parsed to a value.
\<close>

datatype cache_file = Absent | Unreadable js_error | Malformed js_error | Holds json

datatype playerState = playing | paused | stopped | unknown

text \<open>
  Everything a run receives from outside the program:
  \<^item> the outcome of \<open>loadConfiguration\<close> and the working directory;
  \<^item> for each log path, whether the body of \<open>trimLogFile\<close> throws;
  \<^item> the cache file;
  \<^item> the outcome of \<open>pgrep Spotify\<close> and of the two \<open>osascript\<close> calls (an error,
    or the standard output);
  \<^item> the outcome of the fetch and parse inside \<open>callSlackApi\<close>, for
    \<open>users.profile.get\<close> by attempt number, and for \<open>users.profile.set\<close>;
  \<^item> the error thrown by \<open>writeFile\<close> in the first and in the second \<open>saveCache\<close>,
    if any;
  \<^item> the two calls into the profanity filter (a match is a pair of indices);
  \<^item> the sum of two numbers in IEEE 754 double precision, as the engine computes it;
  \<^item> the value of \<open>currentTimestampSeconds()\<close> at each place that calls it.
\<close>

record env =
  loadConfiguration_result :: "js_error + Config"
  repositoryDirectory :: jstring
  trimLogFile_throws :: "jstring \<Rightarrow> bool"
  cacheFile :: cache_file
  pgrep_Spotify :: "js_error + unit"
  osascript_playerState :: "js_error + jstring"
  osascript_track :: "js_error + jstring"
  profileGet_result :: "nat \<Rightarrow> js_error + SlackProfileGetResponse"
  profileSet_result :: "js_error + SlackResponse"
  writeFile_first :: "js_error option"
  writeFile_second :: "js_error option"
  getAllMatches :: "jstring \<Rightarrow> (nat \<times> nat) list"
  applyTo :: "jstring \<Rightarrow> (nat \<times> nat) list \<Rightarrow> jstring"
  float_add :: "rat \<Rightarrow> rat \<Rightarrow> rat"
  now_loadCache :: int
  now_observedAt :: int
  now_saveCache_first :: int
  now_expirationEpoch :: int
  now_setAt :: int
  now_saveCache_second :: int

section \<open>The updater script\<close>

text \<open>
  The operator \<open>+\<close> on two numbers. Every integer of magnitude up to \<open>2^53\<close> is a
  double, and the double sum of two of them is their exact sum when that sum is again
  such an integer. For all other operands the sum is rounded, and the result is the one
  the engine gives.
\<close>

definition safeInteger :: "rat \<Rightarrow> bool" where
  "safeInteger x = (x = of_int \<lfloor>x\<rfloor> \<and> \<bar>x\<bar> \<le> 2 ^ 53)"

definition js_plus :: "env \<Rightarrow> rat \<Rightarrow> rat \<Rightarrow> rat" where
  "js_plus w a b =
     (if safeInteger a \<and> safeInteger b \<and> safeInteger (a + b) then a + b
      else float_add w a b)"

definition censorText :: "env \<Rightarrow> jstring \<Rightarrow> jstring" where
  "censorText w txt =
     (let matches = getAllMatches w txt in
      if length matches = 0 then txt else applyTo w txt matches)"

definition loadConfiguration :: "env \<Rightarrow> Config eff" where
  "loadConfiguration w = ([], loadConfiguration_result w)"

definition parseCache :: "json \<Rightarrow> js_error + Cache" where
  "parseCache cachePayload =
     (case cacheSchema_safeParse cachePayload of
        None \<Rightarrow> Inl (Error ''Cache file is corrupted or invalid.'')
      | Some parsed \<Rightarrow> Inr parsed)"

definition freshCache :: "int \<Rightarrow> Cache" where
  "freshCache t = \<lparr>updatedAt = of_int t, lastNonEmptyNonOwned = None, emptyRead = None,
     lastSetByScript = None, passthrough = []\<rparr>"

text \<open>The body of the \<open>try\<close> in \<open>loadCache\<close>.\<close>

definition loadCache_try :: "env \<Rightarrow> js_error + Cache" where
  "loadCache_try w =
     (case cacheFile w of
        Absent \<Rightarrow> Inr (freshCache (now_loadCache w))
      | Unreadable e \<Rightarrow> Inl e
      | Malformed e \<Rightarrow> Inl e
      | Holds j \<Rightarrow> parseCache j)"

definition loadCache :: "env \<Rightarrow> Cache eff" where
  "loadCache w =
     (case loadCache_try w of
        Inr cache \<Rightarrow> resolve cache
      | Inl e \<Rightarrow>
          andThen (log' WARN ''Cache read failed; starting fresh.'')
            (\<lambda>_. resolve (freshCache (now_loadCache w))))"

text \<open>
  \<open>saveCache\<close>: the time stamp is stored in the cache object, then the file is
  written; \<open>t\<close> is the clock and \<open>thrown\<close> what \<open>writeFile\<close> throws. The value is the
  cache object as the caller holds it afterwards.
\<close>

definition saveCache :: "int \<Rightarrow> js_error option \<Rightarrow> Cache \<Rightarrow> Cache eff" where
  "saveCache t thrown cache =
     (let cache = cache\<lparr>updatedAt := of_int t\<rparr> in
      ([WriteCacheFile cache thrown], case thrown of Some e \<Rightarrow> Inl e | None \<Rightarrow> Inr cache))"

text \<open>
  \<open>trimLogFile\<close>: whatever its body throws is caught and logged. The log files
  themselves are not part of the model.
\<close>

definition trimLogFile :: "env \<Rightarrow> jstring \<Rightarrow> rat \<Rightarrow> rat \<Rightarrow> unit eff" where
  "trimLogFile w filePath maxLines keepLines =
     (if trimLogFile_throws w filePath then log' WARN ''Log trimming failed (non-fatal)''
      else resolve ())"

text \<open>\<open>osascript\<close>, given the outcome of the process: the output is trimmed.\<close>

definition osascript :: "js_error + jstring \<Rightarrow> jstring eff" where
  "osascript outcome =
     (case outcome of Inl e \<Rightarrow> reject e | Inr stdout \<Rightarrow> resolve (trim stdout))"

definition isSpotifyRunning :: "env \<Rightarrow> bool eff" where
  "isSpotifyRunning w =
     (case pgrep_Spotify w of Inr _ \<Rightarrow> resolve True | Inl _ \<Rightarrow> resolve False)"

definition getSpotifyState :: "env \<Rightarrow> playerState eff" where
  "getSpotifyState w =
     (case osascript (osascript_playerState w) of
        (es, Inr state) \<Rightarrow>
          (es, Inr (if state = ascii ''playing'' then playing
                    else if state = ascii ''paused'' then paused
                    else if state = ascii ''stopped'' then stopped
                    else unknown))
      | (es, Inl _) \<Rightarrow> (es, Inr unknown))"

definition getSpotifyTrack :: "env \<Rightarrow> jstring eff" where
  "getSpotifyTrack w = osascript (osascript_track w)"

text \<open>
  \<open>callSlackApi\<close>: the request is sent, and the outcome of the fetch and of
  \<open>JSON.parse\<close> is the given one (an error for a network failure or a body that is
  not JSON). The parsed body is taken at the type the caller casts it to.
\<close>

definition callSlackApi ::
  "jstring \<Rightarrow> string \<Rightarrow> SlackProfile option \<Rightarrow> js_error + 'a \<Rightarrow> 'a eff" where
  "callSlackApi token method body outcome = ([SlackApiCall token method body], outcome)"

definition maxAttempts :: nat where
  "maxAttempts = 3"

text \<open>
  The loop of \<open>getSlackProfileWithRetry\<close>, from the value of \<open>attempt\<close> and of
  \<open>lastError\<close> (\<open>None\<close> for \<open>undefined\<close>) on.
\<close>

function getSlackProfileWithRetry_loop ::
  "env \<Rightarrow> jstring \<Rightarrow> nat \<Rightarrow> js_error option \<Rightarrow> SlackProfileGetResponse eff" where
  "getSlackProfileWithRetry_loop w token attempt lastError =
     (if attempt \<le> maxAttempts then
        (case callSlackApi token ''users.profile.get'' None (profileGet_result w attempt) of
           (es, Inr response) \<Rightarrow> (es, Inr response)
         | (es, Inl e) \<Rightarrow>
             (case getSlackProfileWithRetry_loop w token (attempt + 1) (Some e) of
                (es', r) \<Rightarrow>
                  (es @ [Log WARN ''Slack profile.get failed, retrying'', Sleep (250 * attempt)]
                     @ es', r)))
      else reject (case lastError of Some e \<Rightarrow> e | None \<Rightarrow> Error ''undefined''))"
  by pat_completeness auto
termination
  by (relation "measure (\<lambda>(w, token, attempt, lastError). Suc maxAttempts - attempt)") auto

definition getSlackProfileWithRetry :: "env \<Rightarrow> jstring \<Rightarrow> SlackProfileGetResponse eff" where
  "getSlackProfileWithRetry w token = getSlackProfileWithRetry_loop w token 1 None"

text \<open>The object \<open>runtimeConfig\<close> that \<open>main\<close> builds from the loaded configuration.\<close>

definition mkRuntimeConfig :: "env \<Rightarrow> Config \<Rightarrow> RuntimeConfig" where
  "mkRuntimeConfig w config = \<lparr>
     statusEmoji = orElse (config_statusEmoji config) (statusEmoji DEFAULT_CONFIG),
     statusEmojiUnicode =
       orElse (config_statusEmojiUnicode config) (statusEmojiUnicode DEFAULT_CONFIG),
     statusTtlSeconds =
       orElse (config_statusTtlSeconds config) (statusTtlSeconds DEFAULT_CONFIG),
     alwaysOverride = orElse (config_alwaysOverride config) (alwaysOverride DEFAULT_CONFIG),
     logMaxLines = orElse (config_logMaxLines config) (logMaxLines DEFAULT_CONFIG),
     logKeepLines = orElse (config_logKeepLines config) (logKeepLines DEFAULT_CONFIG),
     stdoutLogPath =
       orElse (config_stdoutLogPath config)
         (path_join (repositoryDirectory w) (ascii ''spotify-status.log'')),
     stderrLogPath =
       orElse (config_stderrLogPath config)
         (path_join (repositoryDirectory w) (ascii ''spotify-status.error.log'')),
     cacheMaxAgeSeconds =
       orElse (config_cacheMaxAgeSeconds config) (cacheMaxAgeSeconds DEFAULT_CONFIG),
     requireTwoEmptyReadsBeforeOverride =
       orElse (config_requireTwoEmptyReadsBeforeOverride config)
         (requireTwoEmptyReadsBeforeOverride DEFAULT_CONFIG),
     emptyReadConfirmWindowSeconds =
       orElse (config_emptyReadConfirmWindowSeconds config)
         (emptyReadConfirmWindowSeconds DEFAULT_CONFIG) \<rparr>"

text \<open>
  \<open>main\<close> is cut into four parts, each the rest of the function from one point on; the
  value of each is the cache object as it is when \<open>main\<close> returns.

  \<open>main_update\<close>: from the call of \<open>getSpotifyTrack\<close> to the end.
\<close>

definition main_update :: "env \<Rightarrow> Config \<Rightarrow> RuntimeConfig \<Rightarrow> Cache \<Rightarrow> Cache eff" where
  "main_update w config runtimeConfig cache =
     andThen (getSpotifyTrack w) (\<lambda>rawTrackName.
       let censoredTrackName = censorText w rawTrackName;
           expirationEpoch =
             js_plus w (of_int (now_expirationEpoch w)) (statusTtlSeconds runtimeConfig)
       in
       andThen (log' INFO ''Updating Slack status to current track'') (\<lambda>_.
       andThen (callSlackApi (slackToken config) ''users.profile.set''
                  (Some \<lparr>status_text = Some censoredTrackName,
                          status_emoji = Some (statusEmoji runtimeConfig),
                          status_expiration = Some expirationEpoch\<rparr>)
                  (profileSet_result w)) (\<lambda>setResponse.
       if \<not> ok setResponse then
         andThen (log' ERROR ''Slack users.profile.set failed'') (\<lambda>_. resolve cache)
       else
         let cache = cache\<lparr>lastSetByScript := Some \<lparr>
               text' = censoredTrackName,
               emoji' = statusEmoji runtimeConfig,
               expiration' = expirationEpoch,
               setAt = of_int (now_setAt w)\<rparr>\<rparr>
         in
         andThen (saveCache (now_saveCache_second w) (writeFile_second w) cache) (\<lambda>cache.
         andThen (log' INFO ''Done'') (\<lambda>_. resolve cache)))))"

text \<open>
  The constants \<open>statusText\<close>, \<open>statusEmoji\<close>, \<open>statusExpiration\<close>,
  \<open>isOwnedByScript\<close> and \<open>isSafeToOverride\<close> that \<open>main\<close> computes from the profile
  response. \<open>profileResponse.profile?.f\<close> is \<open>undefined\<close> when there is no profile.
\<close>

definition statusText_of :: "SlackProfileGetResponse \<Rightarrow> jstring" where
  "statusText_of profileResponse =
     normalizeText (case profile profileResponse of None \<Rightarrow> None | Some p \<Rightarrow> status_text p)"

definition statusEmoji_of :: "SlackProfileGetResponse \<Rightarrow> jstring" where
  "statusEmoji_of profileResponse =
     normalizeEmoji (case profile profileResponse of None \<Rightarrow> None | Some p \<Rightarrow> status_emoji p)"

definition statusExpiration_of :: "SlackProfileGetResponse \<Rightarrow> rat" where
  "statusExpiration_of profileResponse =
     orElse (case profile profileResponse of None \<Rightarrow> None | Some p \<Rightarrow> status_expiration p) 0"

definition isOwnedByScript_of :: "RuntimeConfig \<Rightarrow> SlackProfileGetResponse \<Rightarrow> bool" where
  "isOwnedByScript_of runtimeConfig profileResponse =
     isStatusOwnedByScript (statusText_of profileResponse) (statusEmoji_of profileResponse)
       runtimeConfig"

definition isSafeToOverride_of :: "RuntimeConfig \<Rightarrow> SlackProfileGetResponse \<Rightarrow> bool" where
  "isSafeToOverride_of runtimeConfig profileResponse =
     (isSafeToOverrideWhenPlayingTrack (statusText_of profileResponse)
        (statusEmoji_of profileResponse)
      \<or> isOwnedByScript_of runtimeConfig profileResponse)"

text \<open>\<open>main_reconcile\<close>: from the test of \<open>profileResponse.ok\<close> on.\<close>

definition main_reconcile ::
  "env \<Rightarrow> Config \<Rightarrow> RuntimeConfig \<Rightarrow> Cache \<Rightarrow> playerState \<Rightarrow> SlackProfileGetResponse
     \<Rightarrow> Cache eff" where
  "main_reconcile w config runtimeConfig cache playerState' profileResponse =
     (if \<not> ok profileResponse then
        andThen (log' WARN
          ''Slack users.profile.get returned ok=false; skipping to avoid overrides'')
          (\<lambda>_. resolve cache)
      else
        let statusText = statusText_of profileResponse;
            statusEmoji' = statusEmoji_of profileResponse;
            statusExpiration = statusExpiration_of profileResponse;
            isOwnedByScript = isOwnedByScript_of runtimeConfig profileResponse;
            isStatusEmpty = isEmptySlackStatus statusText statusEmoji';
            isSafeToOverride = isSafeToOverride_of runtimeConfig profileResponse
        in
        andThen (log' INFO ''Slack current status snapshot'') (\<lambda>_.
        let cache =
              (if \<not> isOwnedByScript \<and> statusText \<noteq> [] \<and> statusEmoji' \<noteq> [] then
                 cache\<lparr>lastNonEmptyNonOwned := Some \<lparr>
                   text' = statusText,
                   emoji' = statusEmoji',
                   expiration' = statusExpiration,
                   observedAt = of_int (now_observedAt w)\<rparr>\<rparr>
               else cache)
        in
        andThen (saveCache (now_saveCache_first w) (writeFile_first w) cache) (\<lambda>cache.
        if playerState' \<noteq> playing then
          andThen (log' INFO
            ''Spotify not playing; exiting (status will expire if previously set).'')
            (\<lambda>_. resolve cache)
        else if \<not> isSafeToOverride \<and> \<not> alwaysOverride runtimeConfig then
          andThen (log' WARN
            ''Skipping update because Slack status appears set by another app/user (both text and emoji are non-empty).'')
            (\<lambda>_. resolve cache)
        else main_update w config runtimeConfig cache)))"

text \<open>\<open>main_loaded\<close>: from the call of \<open>isSpotifyRunning\<close> on.\<close>

definition main_loaded :: "env \<Rightarrow> Config \<Rightarrow> RuntimeConfig \<Rightarrow> Cache \<Rightarrow> Cache eff" where
  "main_loaded w config runtimeConfig cache =
     andThen (isSpotifyRunning w) (\<lambda>spotifyRunning.
     andThen (log' DEBUG ''Spotify running check'') (\<lambda>_.
     if \<not> spotifyRunning then
       andThen (log' INFO ''Spotify is not running; exiting (no status change).'')
         (\<lambda>_. resolve cache)
     else
       andThen (getSpotifyState w) (\<lambda>playerState'.
       andThen (log' INFO ''Spotify player state'') (\<lambda>_.
       andThen (getSlackProfileWithRetry w (slackToken config)) (\<lambda>profileResponse.
       main_reconcile w config runtimeConfig cache playerState' profileResponse)))))"

text \<open>\<open>main_body\<close>: the whole of \<open>main\<close>.\<close>

definition main_body :: "env \<Rightarrow> Cache eff" where
  "main_body w =
     andThen (loadConfiguration w) (\<lambda>config.
     let runtimeConfig = mkRuntimeConfig w config in
     andThen (trimLogFile w (stdoutLogPath runtimeConfig) (logMaxLines runtimeConfig)
                (logKeepLines runtimeConfig)) (\<lambda>_.
     andThen (trimLogFile w (stderrLogPath runtimeConfig) (logMaxLines runtimeConfig)
                (logKeepLines runtimeConfig)) (\<lambda>_.
     andThen (log' INFO ''spotify-status-on-slack'') (\<lambda>_.
     andThen (loadCache w) (\<lambda>cache.
     main_loaded w config runtimeConfig cache)))))"

text \<open>
  One run of the process, \<open>main().catch(...)\<close>: what it did, the exit code of the
  process, and the cache object at a normal return of \<open>main\<close>.
\<close>

record run =
  events :: "event list"
  exitCode :: nat
  cacheAfter :: "Cache option"

definition main :: "env \<Rightarrow> run" where
  "main w =
     (case main_body w of
        (es, Inr cache) \<Rightarrow> \<lparr>events = es, exitCode = 0, cacheAfter = Some cache\<rparr>
      | (es, Inl e) \<Rightarrow>
          \<lparr>events = es @ [Log ERROR ''Fatal error''], exitCode = 1, cacheAfter = None\<rparr>)"

section \<open>Reading a run\<close>

text \<open>The status-set calls of a list of events, and the profile reads.\<close>

fun isSetCall :: "event \<Rightarrow> bool" where
  "isSetCall (SlackApiCall token method body) = (method = ''users.profile.set'')"
| "isSetCall _ = False"

fun isGetCall :: "event \<Rightarrow> bool" where
  "isGetCall (SlackApiCall token method body) = (method = ''users.profile.get'')"
| "isGetCall _ = False"


definition setCalls :: "event list \<Rightarrow> event list" where
  "setCalls es = filter isSetCall es"

definition getCalls :: "event list \<Rightarrow> event list" where
  "getCalls es = filter isGetCall es"

text \<open>The contents of the calls of \<open>writeFile\<close> for the cache file, thrown or not.\<close>

fun cacheWrites :: "event list \<Rightarrow> Cache list" where
  "cacheWrites [] = []"
| "cacheWrites (WriteCacheFile cache thrown # es) = cache # cacheWrites es"
| "cacheWrites (_ # es) = cacheWrites es"

text \<open>
  What the run has put into the cache file: the content of the last call of
  \<open>writeFile\<close> that did not throw; \<open>None\<close> when there is no such call.
\<close>

fun cacheFileAfter :: "event list \<Rightarrow> Cache option" where
  "cacheFileAfter [] = None"
| "cacheFileAfter (WriteCacheFile cache None # es) =
     (case cacheFileAfter es of None \<Rightarrow> Some cache | Some later \<Rightarrow> Some later)"
| "cacheFileAfter (_ # es) = cacheFileAfter es"

text \<open>
  The events of the retry loop: a profile read, the warning after a read that threw,
  and a timer.
\<close>

fun isRetryEvent :: "event \<Rightarrow> bool" where
  "isRetryEvent (SlackApiCall token method body) = (method = ''users.profile.get'')"
| "isRetryEvent (Log level message) = (message = ''Slack profile.get failed, retrying'')"
| "isRetryEvent (Sleep ms) = True"
| "isRetryEvent _ = False"


fun sleeps :: "event list \<Rightarrow> nat list" where
  "sleeps [] = []"
| "sleeps (Sleep ms # es) = ms # sleeps es"
| "sleeps (_ # es) = sleeps es"

text \<open>The cache object that \<open>loadCache\<close> hands to \<open>main\<close>.\<close>

definition loadedCache :: "env \<Rightarrow> Cache" where
  "loadedCache w =
     (case loadCache_try w of Inr cache \<Rightarrow> cache | Inl e \<Rightarrow> freshCache (now_loadCache w))"

text \<open>The state that \<open>getSpotifyState\<close> returns; it never throws.\<close>

definition playerStateOf :: "env \<Rightarrow> playerState" where
  "playerStateOf w = (case snd (getSpotifyState w) of Inr state \<Rightarrow> state | Inl e \<Rightarrow> unknown)"

text \<open>
  The cache object after the step that records a foreign status, the body of the
  status-set request, and the entry stored in \<open>lastSetByScript\<close>, for the output
  \<open>out\<close> of the track query.
\<close>

definition classified ::
  "env \<Rightarrow> RuntimeConfig \<Rightarrow> Cache \<Rightarrow> SlackProfileGetResponse \<Rightarrow> Cache" where
  "classified w runtimeConfig cache profileResponse =
     (if \<not> isOwnedByScript_of runtimeConfig profileResponse
         \<and> statusText_of profileResponse \<noteq> [] \<and> statusEmoji_of profileResponse \<noteq> []
      then cache\<lparr>lastNonEmptyNonOwned := Some \<lparr>
             text' = statusText_of profileResponse,
             emoji' = statusEmoji_of profileResponse,
             expiration' = statusExpiration_of profileResponse,
             observedAt = of_int (now_observedAt w)\<rparr>\<rparr>
      else cache)"

definition sentProfile :: "env \<Rightarrow> RuntimeConfig \<Rightarrow> jstring \<Rightarrow> SlackProfile" where
  "sentProfile w runtimeConfig out =
     \<lparr>status_text = Some (censorText w (trim out)),
      status_emoji = Some (statusEmoji runtimeConfig),
      status_expiration =
        Some (js_plus w (of_int (now_expirationEpoch w)) (statusTtlSeconds runtimeConfig))\<rparr>"

definition scriptEntry :: "env \<Rightarrow> RuntimeConfig \<Rightarrow> jstring \<Rightarrow> ScriptStatus" where
  "scriptEntry w runtimeConfig out =
     \<lparr>text' = censorText w (trim out),
      emoji' = statusEmoji runtimeConfig,
      expiration' = js_plus w (of_int (now_expirationEpoch w)) (statusTtlSeconds runtimeConfig),
      setAt = of_int (now_setAt w)\<rparr>"

text \<open>The events of \<open>main\<close> before the call of \<open>isSpotifyRunning\<close>: log lines only.\<close>

definition preamble :: "env \<Rightarrow> Config \<Rightarrow> event list" where
  "preamble w config =
     (let runtimeConfig = mkRuntimeConfig w config in
      fst (trimLogFile w (stdoutLogPath runtimeConfig) (logMaxLines runtimeConfig)
             (logKeepLines runtimeConfig))
      @ fst (trimLogFile w (stderrLogPath runtimeConfig) (logMaxLines runtimeConfig)
               (logKeepLines runtimeConfig))
      @ [Log INFO ''spotify-status-on-slack'']
      @ fst (loadCache w))"

section \<open>Example runs\<close>

text \<open>
  A configuration with the token only, and a world in which everything succeeds:
  Spotify plays, the remote status is not set, no cache file exists yet.
\<close>

definition exampleConfig :: Config where
  "exampleConfig = \<lparr>
     slackToken = ascii ''xoxp-1'',
     config_pollIntervalSeconds = None,
     config_statusEmoji = None,
     config_statusEmojiUnicode = None,
     config_statusTtlSeconds = None,
     config_alwaysOverride = None,
     config_requireTwoEmptyReadsBeforeOverride = None,
     config_emptyReadConfirmWindowSeconds = None,
     config_cacheMaxAgeSeconds = None,
     config_logMaxLines = None,
     config_logKeepLines = None,
     config_stdoutLogPath = None,
     config_stderrLogPath = None \<rparr>"

definition noProfileResponse :: SlackProfileGetResponse where
  "noProfileResponse = \<lparr>ok = True, error = None, profile = None\<rparr>"

definition lunchResponse :: SlackProfileGetResponse where
  "lunchResponse = \<lparr>ok = True, error = None, profile = Some
     \<lparr>status_text = Some (ascii '' Lunch ''), status_emoji = Some (ascii '':pizza: ''),
      status_expiration = Some 1700003600\<rparr>\<rparr>"


definition earlierCacheJson :: "int \<Rightarrow> json" where
  "earlierCacheJson count = JObject
     [(ascii ''updatedAt'', JNumber (Finite 1699999999)),
      (ascii ''lastNonEmptyNonOwned'', JObject
         [(ascii ''text'', JString (ascii ''Meeting'')),
          (ascii ''emoji'', JString (ascii '':calendar:'')),
          (ascii ''expiration'', JNumber (Finite 1699990000)),
          (ascii ''observedAt'', JNumber (Finite 1699980000))]),
      (ascii ''emptyRead'', JObject
         [(ascii ''lastSeenAt'', JNumber (Finite 1699999990)),
          (ascii ''consecutiveCount'', JNumber (Finite (of_int count)))])]"

text \<open>
  A configuration with its own emoji and time to live, and a world in which the track
  query returns a line that the profanity filter changes.
\<close>

definition customConfig :: Config where
  "customConfig = exampleConfig\<lparr>
     config_statusEmoji := Some (ascii '':musical_note:''),
     config_statusTtlSeconds := Some 300\<rparr>"

definition exampleEnv :: env where
  "exampleEnv = \<lparr>
     loadConfiguration_result = Inr exampleConfig,
     repositoryDirectory = ascii ''/repo'',
     trimLogFile_throws = (\<lambda>p. False),
     cacheFile = Absent,
     pgrep_Spotify = Inr (),
     osascript_playerState = Inr (ascii ''playing''),
     osascript_track = Inr (ascii ''Artist - Song''),
     profileGet_result = (\<lambda>attempt. Inr noProfileResponse),
     profileSet_result = Inr \<lparr>ok = True, error = None\<rparr>,
     writeFile_first = None,
     writeFile_second = None,
     getAllMatches = (\<lambda>t. []),
     applyTo = (\<lambda>t ms. t),
     float_add = (\<lambda>a b. a + b),
     now_loadCache = 1700000000,
     now_observedAt = 1700000001,
     now_saveCache_first = 1700000002,
     now_expirationEpoch = 1700000003,
     now_setAt = 1700000004,
     now_saveCache_second = 1700000005 \<rparr>"

definition censoringEnv :: env where
  "censoringEnv = exampleEnv\<lparr>
     loadConfiguration_result := Inr customConfig,
     osascript_track := Inr (ascii ''Damn - Song'' @ [0x000A]),
     getAllMatches := (\<lambda>t. if t = ascii ''Damn - Song'' then [(0, 3)] else []),
     applyTo := (\<lambda>t ms. ascii ''****'' @ drop 4 t)\<rparr>"

section \<open>Facts about strings\<close>

declare getSlackProfileWithRetry_loop.simps [simp del]

lemma includes_sublist: "includes_str s p = sublist p s"
  by (induction s) (simp_all add: sublist_Cons_right)

lemma includes_append: "includes_str s p \<longleftrightarrow> (\<exists>a b. s = a @ p @ b)"
  by (simp add: includes_sublist sublist_def)

lemma trim_Nil: "trim [] = []"
  by (simp add: trim_def)

lemma last_dropWhile_keep:
  "xs \<noteq> [] \<Longrightarrow> \<not> P (last xs) \<Longrightarrow> dropWhile P xs \<noteq> [] \<and> last (dropWhile P xs) = last xs"
  by (induction xs) (auto split: if_splits)

lemma trim_fixed:
  assumes "s = [] \<or> (\<not> isWhiteSpace (hd s) \<and> \<not> isWhiteSpace (last s))"
  shows "trim s = s"
proof (cases "s = []")
  case True
  then show ?thesis by (simp add: trim_def)
next
  case False
  with assms have h: "\<not> isWhiteSpace (hd s)" and l: "\<not> isWhiteSpace (last s)"
    by simp_all
  from h have "dropWhile isWhiteSpace s = s"
    by (simp add: dropWhile_eq_self_iff)
  moreover from l False have "dropWhile isWhiteSpace (rev s) = rev s"
    by (simp add: dropWhile_eq_self_iff hd_rev)
  ultimately show ?thesis
    by (simp add: trim_def)
qed

lemma trim_ends:
  "trim s = [] \<or> (\<not> isWhiteSpace (hd (trim s)) \<and> \<not> isWhiteSpace (last (trim s)))"
proof -
  define t where "t = dropWhile isWhiteSpace s"
  define u where "u = dropWhile isWhiteSpace (rev t)"
  have ts: "trim s = rev u"
    by (simp add: trim_def t_def u_def)
  show ?thesis
  proof (cases "u = []")
    case True
    then show ?thesis by (simp add: ts)
  next
    case False
    then have tne: "t \<noteq> []"
      by (auto simp: u_def)
    then have ht: "\<not> isWhiteSpace (hd t)"
      unfolding t_def by (rule hd_dropWhile)
    from False have hu: "\<not> isWhiteSpace (hd u)"
      unfolding u_def by (rule hd_dropWhile)
    from tne ht have "last u = last (rev t)"
      unfolding u_def using last_dropWhile_keep [of "rev t" isWhiteSpace]
      by (simp add: last_rev)
    then have "last u = hd t"
      using tne by (simp add: last_rev)
    with ht hu False show ?thesis
      by (simp add: ts hd_rev last_rev)
  qed
qed

lemma trim_idem: "trim (trim s) = trim s"
  by (rule trim_fixed) (rule trim_ends)

lemma normalizeText_idem: "normalizeText (Some (normalizeText t)) = normalizeText t"
  by (simp add: normalizeText_def trim_idem)

lemma normalizeEmoji_idem: "normalizeEmoji (Some (normalizeEmoji e)) = normalizeEmoji e"
  by (simp add: normalizeEmoji_def trim_idem)

section \<open>The classifier\<close>

text \<open>
  Claim C2, as stated, fails: \<open>isStatusOwnedByScript\<close> trims the emoji but tests the
  text as it is passed. For a text of two spaces and the sentinel emoji the trimmed
  text is empty, yet the function answers false.
\<close>

theorem isStatusOwnedByScript_untrimmed_text_counterexample:
  "\<not> (isStatusOwnedByScript (ascii ''  '') (ascii '':headphones:'') DEFAULT_CONFIG \<longleftrightarrow>
        (normalizeEmoji (Some (ascii '':headphones:'')) = statusEmoji DEFAULT_CONFIG \<or>
         normalizeEmoji (Some (ascii '':headphones:'')) = statusEmojiUnicode DEFAULT_CONFIG) \<and>
        (normalizeText (Some (ascii ''  '')) = [] \<or>
         includes_str (normalizeText (Some (ascii ''  ''))) (ascii '' - '')))"
  by (simp add: isStatusOwnedByScript_def normalizeEmoji_def normalizeText_def trim_def
      ascii_def isWhiteSpace_def DEFAULT_CONFIG_def)

text \<open>
  Claim C2, amended: \<open>isStatusOwnedByScript\<close> is true iff the trimmed emoji equals
  \<open>statusEmoji\<close> or \<open>statusEmojiUnicode\<close> and the text as passed is empty or contains
  \<open>" - "\<close>; the run passes the text already trimmed, so there the text tested is the
  normalized one; and for an emoji whose trimmed form matches neither sentinel the
  answer is false whatever the text.
\<close>

theorem isStatusOwnedByScript_iff:
  "(isStatusOwnedByScript txt emoji config \<longleftrightarrow>
      (normalizeEmoji (Some emoji) = statusEmoji config \<or>
       normalizeEmoji (Some emoji) = statusEmojiUnicode config) \<and>
      (txt = [] \<or> (\<exists>a b. txt = a @ ascii '' - '' @ b)))
   \<and> (isStatusOwnedByScript (normalizeText t) emoji config \<longleftrightarrow>
      (normalizeEmoji (Some emoji) = statusEmoji config \<or>
       normalizeEmoji (Some emoji) = statusEmojiUnicode config) \<and>
      (normalizeText t = [] \<or> (\<exists>a b. normalizeText t = a @ ascii '' - '' @ b)))
   \<and> (normalizeEmoji (Some emoji) \<noteq> statusEmoji config \<and>
      normalizeEmoji (Some emoji) \<noteq> statusEmojiUnicode config \<longrightarrow>
      \<not> isStatusOwnedByScript txt emoji config)"
  by (simp add: isStatusOwnedByScript_def includes_append Let_def)

theorem isStatusOwnedByScript_iff_witness:
  "normalizeEmoji (Some (ascii '':pizza:'')) \<noteq> statusEmoji DEFAULT_CONFIG
   \<and> normalizeEmoji (Some (ascii '':pizza:'')) \<noteq> statusEmojiUnicode DEFAULT_CONFIG
   \<and> \<not> isStatusOwnedByScript (ascii ''a - b'') (ascii '':pizza:'') DEFAULT_CONFIG
   \<and> isStatusOwnedByScript (ascii ''a - b'') (ascii '' :headphones: '') DEFAULT_CONFIG"
proof -
  have e: "normalizeEmoji (Some (ascii '':pizza:'')) \<noteq> statusEmoji DEFAULT_CONFIG
      \<and> normalizeEmoji (Some (ascii '':pizza:'')) \<noteq> statusEmojiUnicode DEFAULT_CONFIG"
    by (simp add: normalizeEmoji_def trim_def ascii_def isWhiteSpace_def DEFAULT_CONFIG_def)
  have h: "normalizeEmoji (Some (ascii '' :headphones: '')) = statusEmoji DEFAULT_CONFIG"
    by (simp add: normalizeEmoji_def trim_def ascii_def isWhiteSpace_def DEFAULT_CONFIG_def)
  have s: "ascii ''a - b'' = ascii ''a'' @ ascii '' - '' @ ascii ''b''"
    by (simp add: ascii_def)
  from e h s show ?thesis
    using isStatusOwnedByScript_iff
      [of "ascii ''a - b''" "ascii '':pizza:''" DEFAULT_CONFIG None]
      isStatusOwnedByScript_iff
      [of "ascii ''a - b''" "ascii '' :headphones: ''" DEFAULT_CONFIG None]
    by blast
qed

text \<open>
  Claim C3, as stated, fails in its second part: \<open>isSafeToOverrideWhenPlayingTrack\<close>
  compares its arguments as passed. A text of one space with a non-empty emoji has an
  empty trimmed text, yet the function answers false.
\<close>

theorem isSafeToOverrideWhenPlayingTrack_untrimmed_counterexample:
  "\<not> (isSafeToOverrideWhenPlayingTrack (ascii '' '') (ascii '':pizza:'') \<longleftrightarrow>
        normalizeText (Some (ascii '' '')) = [] \<or>
        normalizeEmoji (Some (ascii '':pizza:'')) = [])"
  by (simp add: isSafeToOverrideWhenPlayingTrack_def normalizeEmoji_def normalizeText_def
      trim_def ascii_def isWhiteSpace_def)

text \<open>
  Claim C3, amended: \<open>isEmptySlackStatus\<close> is true iff both trimmed fields are empty;
  \<open>isSafeToOverrideWhenPlayingTrack\<close> is true iff the text as passed is empty or the
  emoji as passed is empty, which on the trimmed fields that the run passes is: the
  normalized text is empty or the normalized emoji is empty; and with both fields empty
  both predicates are true.
\<close>

theorem isEmptySlackStatus_isSafeToOverride_iff:
  "(isEmptySlackStatus txt emoji \<longleftrightarrow>
      normalizeText (Some txt) = [] \<and> normalizeEmoji (Some emoji) = [])
   \<and> (isSafeToOverrideWhenPlayingTrack txt emoji \<longleftrightarrow> txt = [] \<or> emoji = [])
   \<and> (isSafeToOverrideWhenPlayingTrack (normalizeText t) (normalizeEmoji e) \<longleftrightarrow>
      normalizeText t = [] \<or> normalizeEmoji e = [])
   \<and> (isEmptySlackStatus (normalizeText t) (normalizeEmoji e) \<longleftrightarrow>
      normalizeText t = [] \<and> normalizeEmoji e = [])
   \<and> isEmptySlackStatus [] [] \<and> isSafeToOverrideWhenPlayingTrack [] []"
  by (simp add: isEmptySlackStatus_def isSafeToOverrideWhenPlayingTrack_def
      normalizeText_idem normalizeEmoji_idem)
     (simp add: normalizeText_def normalizeEmoji_def trim_Nil)

section \<open>Facts about the effects\<close>

lemma fst_andThen:
  "fst (andThen m f) = fst m @ (case snd m of Inl e \<Rightarrow> [] | Inr a \<Rightarrow> fst (f a))"
  by (cases m) (auto simp: andThen_def split: sum.splits prod.splits)

lemma snd_andThen:
  "snd (andThen m f) = (case snd m of Inl e \<Rightarrow> Inl e | Inr a \<Rightarrow> snd (f a))"
  by (cases m) (auto simp: andThen_def split: sum.splits prod.splits)

lemma log_simps: "fst (log' l m) = [Log l m]" "snd (log' l m) = Inr ()"
  by (simp_all add: log'_def)

lemma resolve_simps: "fst (resolve a) = []" "snd (resolve a) = Inr a"
  by (simp_all add: resolve_def)

lemma reject_simps: "fst (reject e) = []" "snd (reject e) = Inl e"
  by (simp_all add: reject_def)

lemma trimLogFile_snd: "snd (trimLogFile w p a b) = Inr ()"
  by (simp add: trimLogFile_def log_simps resolve_simps)

lemma trimLogFile_fst:
  "fst (trimLogFile w p a b) =
     (if trimLogFile_throws w p then [Log WARN ''Log trimming failed (non-fatal)''] else [])"
  by (simp add: trimLogFile_def log_simps resolve_simps)

lemma loadCache_snd: "snd (loadCache w) = Inr (loadedCache w)"
  by (simp add: loadCache_def loadedCache_def snd_andThen log_simps resolve_simps
      split: sum.splits)

lemma loadCache_fst:
  "fst (loadCache w) =
     (if isl (loadCache_try w) then [Log WARN ''Cache read failed; starting fresh.''] else [])"
  by (simp add: loadCache_def fst_andThen log_simps resolve_simps split: sum.splits)


section \<open>The retry loop, unrolled\<close>

lemma loop4: "getSlackProfileWithRetry_loop w token 4 (Some e) = ([], Inl e)"
  by (subst getSlackProfileWithRetry_loop.simps) (simp add: maxAttempts_def reject_def)

lemma loop3:
  "getSlackProfileWithRetry_loop w token 3 lastError =
     (case profileGet_result w 3 of
        Inr r \<Rightarrow> ([SlackApiCall token ''users.profile.get'' None], Inr r)
      | Inl e \<Rightarrow>
          ([SlackApiCall token ''users.profile.get'' None,
            Log WARN ''Slack profile.get failed, retrying'', Sleep 750], Inl e))"
  by (subst getSlackProfileWithRetry_loop.simps)
     (simp add: maxAttempts_def callSlackApi_def loop4 reject_def split: sum.splits)

lemma loop2:
  "getSlackProfileWithRetry_loop w token 2 lastError =
     (case profileGet_result w 2 of
        Inr r \<Rightarrow> ([SlackApiCall token ''users.profile.get'' None], Inr r)
      | Inl e \<Rightarrow>
          (case getSlackProfileWithRetry_loop w token 3 (Some e) of
             (es, r) \<Rightarrow>
               ([SlackApiCall token ''users.profile.get'' None,
                 Log WARN ''Slack profile.get failed, retrying'', Sleep 500] @ es, r)))"
  by (subst getSlackProfileWithRetry_loop.simps)
     (simp add: maxAttempts_def callSlackApi_def split: sum.splits)

lemma loop1:
  "getSlackProfileWithRetry_loop w token (Suc 0) lastError =
     (case profileGet_result w 1 of
        Inr r \<Rightarrow> ([SlackApiCall token ''users.profile.get'' None], Inr r)
      | Inl e \<Rightarrow>
          (case getSlackProfileWithRetry_loop w token 2 (Some e) of
             (es, r) \<Rightarrow>
               ([SlackApiCall token ''users.profile.get'' None,
                 Log WARN ''Slack profile.get failed, retrying'', Sleep 250] @ es, r)))"
  by (subst getSlackProfileWithRetry_loop.simps)
     (simp add: maxAttempts_def callSlackApi_def numeral_2_eq_2 split: sum.splits)

lemma retry_unrolled:
  "getSlackProfileWithRetry w token =
     (case profileGet_result w 1 of
        Inr r \<Rightarrow> ([SlackApiCall token ''users.profile.get'' None], Inr r)
      | Inl e1 \<Rightarrow>
         (case profileGet_result w 2 of
            Inr r \<Rightarrow>
              ([SlackApiCall token ''users.profile.get'' None,
                Log WARN ''Slack profile.get failed, retrying'', Sleep 250,
                SlackApiCall token ''users.profile.get'' None], Inr r)
          | Inl e2 \<Rightarrow>
             (case profileGet_result w 3 of
                Inr r \<Rightarrow>
                  ([SlackApiCall token ''users.profile.get'' None,
                    Log WARN ''Slack profile.get failed, retrying'', Sleep 250,
                    SlackApiCall token ''users.profile.get'' None,
                    Log WARN ''Slack profile.get failed, retrying'', Sleep 500,
                    SlackApiCall token ''users.profile.get'' None], Inr r)
              | Inl e3 \<Rightarrow>
                  ([SlackApiCall token ''users.profile.get'' None,
                    Log WARN ''Slack profile.get failed, retrying'', Sleep 250,
                    SlackApiCall token ''users.profile.get'' None,
                    Log WARN ''Slack profile.get failed, retrying'', Sleep 500,
                    SlackApiCall token ''users.profile.get'' None,
                    Log WARN ''Slack profile.get failed, retrying'', Sleep 750],
                   Inl e3))))"
  unfolding getSlackProfileWithRetry_def
  by (simp add: loop1 loop2 loop3 split: sum.splits)

section \<open>The parts of main in closed form\<close>

lemma osascript_eq:
  "osascript outcome = (case outcome of Inl e \<Rightarrow> ([], Inl e) | Inr out \<Rightarrow> ([], Inr (trim out)))"
  by (simp add: osascript_def reject_def resolve_def split: sum.splits)

lemma andThen_Inl: "andThen (es, Inl e) f = (es, Inl e)"
  by (simp add: andThen_def)

lemma andThen_Inr: "andThen (es, Inr a) f = (es @ fst (f a), snd (f a))"
  by (simp add: andThen_def split: prod.splits)

lemma andThen_log: "andThen (log' l m) f = (Log l m # fst (f ()), snd (f ()))"
  by (simp add: andThen_def log'_def split: prod.splits)

lemma andThen_resolve: "andThen (resolve a) f = f a"
  by (simp add: andThen_def resolve_def split: prod.splits)

lemmas andThen_simps = andThen_Inl andThen_Inr andThen_log andThen_resolve

lemma saveCache_eq:
  "saveCache t thrown cache =
     ([WriteCacheFile (cache\<lparr>updatedAt := of_int t\<rparr>) thrown],
      case thrown of Some e \<Rightarrow> Inl e | None \<Rightarrow> Inr (cache\<lparr>updatedAt := of_int t\<rparr>))"
  by (simp add: saveCache_def Let_def)

lemma main_update_eq:
  "main_update w config rc cache =
     (case osascript_track w of
        Inl e \<Rightarrow> ([], Inl e)
      | Inr out \<Rightarrow>
          (case profileSet_result w of
             Inl e \<Rightarrow>
               ([Log INFO ''Updating Slack status to current track'',
                 SlackApiCall (slackToken config) ''users.profile.set''
                   (Some (sentProfile w rc out))], Inl e)
           | Inr setResponse \<Rightarrow>
               if \<not> ok setResponse then
                 ([Log INFO ''Updating Slack status to current track'',
                   SlackApiCall (slackToken config) ''users.profile.set''
                     (Some (sentProfile w rc out)),
                   Log ERROR ''Slack users.profile.set failed''], Inr cache)
               else
                 (case writeFile_second w of
                    Some e \<Rightarrow>
                      ([Log INFO ''Updating Slack status to current track'',
                        SlackApiCall (slackToken config) ''users.profile.set''
                          (Some (sentProfile w rc out)),
                        WriteCacheFile (cache\<lparr>lastSetByScript := Some (scriptEntry w rc out),
                          updatedAt := of_int (now_saveCache_second w)\<rparr>) (Some e)], Inl e)
                  | None \<Rightarrow>
                      ([Log INFO ''Updating Slack status to current track'',
                        SlackApiCall (slackToken config) ''users.profile.set''
                          (Some (sentProfile w rc out)),
                        WriteCacheFile (cache\<lparr>lastSetByScript := Some (scriptEntry w rc out),
                          updatedAt := of_int (now_saveCache_second w)\<rparr>) None,
                        Log INFO ''Done''],
                       Inr (cache\<lparr>lastSetByScript := Some (scriptEntry w rc out),
                          updatedAt := of_int (now_saveCache_second w)\<rparr>)))))"
  by (simp add: main_update_def getSpotifyTrack_def osascript_eq andThen_simps saveCache_eq
      callSlackApi_def sentProfile_def scriptEntry_def Let_def resolve_def
      split: sum.splits option.splits)

lemma main_reconcile_eq:
  "main_reconcile w config rc cache st r =
     (if \<not> ok r then
        ([Log WARN ''Slack users.profile.get returned ok=false; skipping to avoid overrides''],
         Inr cache)
      else
        (case writeFile_first w of
           Some e \<Rightarrow>
             ([Log INFO ''Slack current status snapshot'',
               WriteCacheFile ((classified w rc cache r)\<lparr>updatedAt := of_int (now_saveCache_first w)\<rparr>)
                 (Some e)],
              Inl e)
         | None \<Rightarrow>
             if st \<noteq> playing then
               ([Log INFO ''Slack current status snapshot'',
                 WriteCacheFile ((classified w rc cache r)\<lparr>updatedAt := of_int (now_saveCache_first w)\<rparr>)
                   None,
                 Log INFO ''Spotify not playing; exiting (status will expire if previously set).''],
                Inr ((classified w rc cache r)\<lparr>updatedAt := of_int (now_saveCache_first w)\<rparr>))
             else if \<not> isSafeToOverride_of rc r \<and> \<not> alwaysOverride rc then
               ([Log INFO ''Slack current status snapshot'',
                 WriteCacheFile ((classified w rc cache r)\<lparr>updatedAt := of_int (now_saveCache_first w)\<rparr>)
                   None,
                 Log WARN ''Skipping update because Slack status appears set by another app/user (both text and emoji are non-empty).''],
                Inr ((classified w rc cache r)\<lparr>updatedAt := of_int (now_saveCache_first w)\<rparr>))
             else
               ([Log INFO ''Slack current status snapshot'',
                 WriteCacheFile ((classified w rc cache r)\<lparr>updatedAt := of_int (now_saveCache_first w)\<rparr>)
                   None]
                  @ fst (main_update w config rc
                      ((classified w rc cache r)\<lparr>updatedAt := of_int (now_saveCache_first w)\<rparr>)),
                snd (main_update w config rc
                      ((classified w rc cache r)\<lparr>updatedAt := of_int (now_saveCache_first w)\<rparr>)))))"
  by (simp add: main_reconcile_def andThen_simps saveCache_eq classified_def Let_def resolve_def
      split: option.splits)

lemma getSpotifyState_eq: "getSpotifyState w = ([], Inr (playerStateOf w))"
  by (simp add: playerStateOf_def getSpotifyState_def osascript_eq split: sum.splits)

lemma playerStateOf_eq:
  "playerStateOf w =
     (case osascript_playerState w of
        Inl e \<Rightarrow> unknown
      | Inr out \<Rightarrow>
          if trim out = ascii ''playing'' then playing
          else if trim out = ascii ''paused'' then paused
          else if trim out = ascii ''stopped'' then stopped
          else unknown)"
  by (simp add: playerStateOf_def getSpotifyState_def osascript_eq split: sum.splits)

lemma isSpotifyRunning_eq: "isSpotifyRunning w = ([], Inr (\<not> isl (pgrep_Spotify w)))"
  by (simp add: isSpotifyRunning_def resolve_def split: sum.splits)

lemma main_loaded_eq:
  "main_loaded w config rc cache =
     (if isl (pgrep_Spotify w) then
        ([Log DEBUG ''Spotify running check'',
          Log INFO ''Spotify is not running; exiting (no status change).''], Inr cache)
      else
        (case snd (getSlackProfileWithRetry w (slackToken config)) of
           Inl e \<Rightarrow>
             ([Log DEBUG ''Spotify running check'', Log INFO ''Spotify player state'']
                @ fst (getSlackProfileWithRetry w (slackToken config)), Inl e)
         | Inr r \<Rightarrow>
             ([Log DEBUG ''Spotify running check'', Log INFO ''Spotify player state'']
                @ fst (getSlackProfileWithRetry w (slackToken config))
                @ fst (main_reconcile w config rc cache (playerStateOf w) r),
              snd (main_reconcile w config rc cache (playerStateOf w) r))))"
  by (cases "getSlackProfileWithRetry w (slackToken config)")
     (simp add: main_loaded_def isSpotifyRunning_eq getSpotifyState_eq andThen_simps resolve_def
      split: sum.splits)

lemma main_body_eq:
  "main_body w =
     (case loadConfiguration_result w of
        Inl e \<Rightarrow> ([], Inl e)
      | Inr config \<Rightarrow>
          (preamble w config
             @ fst (main_loaded w config (mkRuntimeConfig w config) (loadedCache w)),
           snd (main_loaded w config (mkRuntimeConfig w config) (loadedCache w))))"
proof (cases "loadConfiguration_result w")
  case (Inl e)
  then show ?thesis
    by (simp add: main_body_def loadConfiguration_def andThen_Inl)
next
  case (Inr config)
  then show ?thesis
    by (simp add: main_body_def loadConfiguration_def andThen_Inr Let_def preamble_def
        prod_eq_iff fst_andThen snd_andThen trimLogFile_snd loadCache_snd log_simps)
qed

section \<open>The status-set calls of a run\<close>

lemma setCalls_simps:
  "setCalls [] = []"
  "setCalls (xs @ ys) = setCalls xs @ setCalls ys"
  "setCalls (Log l m # xs) = setCalls xs"
  "setCalls (Sleep n # xs) = setCalls xs"
  "setCalls (WriteCacheFile c t # xs) = setCalls xs"
  "setCalls (SlackApiCall token ''users.profile.get'' body # xs) = setCalls xs"
  "setCalls (SlackApiCall token ''users.profile.set'' body # xs) =
     SlackApiCall token ''users.profile.set'' body # setCalls xs"
  by (simp_all add: setCalls_def)

lemma setCalls_preamble: "setCalls (preamble w config) = []"
  by (simp add: preamble_def Let_def setCalls_simps trimLogFile_fst loadCache_fst)

lemma setCalls_retry: "setCalls (fst (getSlackProfileWithRetry w token)) = []"
  by (simp add: retry_unrolled setCalls_simps split: sum.splits)

lemma setCalls_main_update:
  "setCalls (fst (main_update w config rc cache)) =
     (case osascript_track w of
        Inl e \<Rightarrow> []
      | Inr out \<Rightarrow>
          [SlackApiCall (slackToken config) ''users.profile.set'' (Some (sentProfile w rc out))])"
  by (simp add: main_update_eq setCalls_simps split: sum.splits option.splits)

lemma setCalls_main_reconcile:
  "setCalls (fst (main_reconcile w config rc cache st r)) =
     (if ok r \<and> writeFile_first w = None \<and> st = playing
         \<and> (isSafeToOverride_of rc r \<or> alwaysOverride rc)
      then (case osascript_track w of
              Inl e \<Rightarrow> []
            | Inr out \<Rightarrow>
                [SlackApiCall (slackToken config) ''users.profile.set''
                   (Some (sentProfile w rc out))])
      else [])"
  by (simp add: main_reconcile_eq setCalls_simps setCalls_main_update split: option.splits)

lemma events_main:
  "events (main w) =
     fst (main_body w) @ (if isl (snd (main_body w)) then [Log ERROR ''Fatal error''] else [])"
  by (cases "main_body w") (simp add: main_def split: sum.splits)

lemma exitCode_main: "exitCode (main w) = (if isl (snd (main_body w)) then 1 else 0)"
  by (cases "main_body w") (simp add: main_def split: sum.splits)

lemma cacheAfter_main:
  "cacheAfter (main w) = (case snd (main_body w) of Inl e \<Rightarrow> None | Inr c \<Rightarrow> Some c)"
  by (cases "main_body w") (simp add: main_def split: sum.splits)

lemma setCalls_main:
  "setCalls (events (main w)) =
     (case loadConfiguration_result w of
        Inl e \<Rightarrow> []
      | Inr config \<Rightarrow>
          if isl (pgrep_Spotify w) then []
          else
            (case snd (getSlackProfileWithRetry w (slackToken config)) of
               Inl e \<Rightarrow> []
             | Inr r \<Rightarrow>
                 if ok r \<and> writeFile_first w = None \<and> playerStateOf w = playing
                    \<and> (isSafeToOverride_of (mkRuntimeConfig w config) r
                       \<or> alwaysOverride (mkRuntimeConfig w config))
                 then (case osascript_track w of
                         Inl e \<Rightarrow> []
                       | Inr out \<Rightarrow>
                           [SlackApiCall (slackToken config) ''users.profile.set''
                              (Some (sentProfile w (mkRuntimeConfig w config) out))])
                 else []))"
  by (simp add: events_main main_body_eq main_loaded_eq setCalls_simps setCalls_preamble
      setCalls_retry setCalls_main_reconcile split: sum.splits)

text \<open>
  Claim C1, amended: no run issues more than one status-set call, and exactly one is
  issued iff the configuration loads, Spotify is running, the remote status read
  succeeds with \<open>ok: true\<close>, the player state is exactly \<open>playing\<close>, the snapshot is
  safe to override or owned by the script or \<open>alwaysOverride\<close> is true, the cache
  write that follows the classification succeeds, and the track query succeeds. In
  every other case the run ends without a status-set call.
\<close>

theorem main_setCalls_iff:
  "length (setCalls (events (main w))) \<le> 1
   \<and> (length (setCalls (events (main w))) = 1 \<longleftrightarrow>
       (case loadConfiguration_result w of
          Inl e \<Rightarrow> False
        | Inr config \<Rightarrow>
            \<not> isl (pgrep_Spotify w)
            \<and> (case snd (getSlackProfileWithRetry w (slackToken config)) of
                 Inl e \<Rightarrow> False
               | Inr r \<Rightarrow>
                   ok r
                   \<and> playerStateOf w = playing
                   \<and> (isSafeToOverrideWhenPlayingTrack (statusText_of r) (statusEmoji_of r)
                      \<or> isOwnedByScript_of (mkRuntimeConfig w config) r
                      \<or> alwaysOverride (mkRuntimeConfig w config))
                   \<and> writeFile_first w = None
                   \<and> \<not> isl (osascript_track w))))"
  by (auto simp add: setCalls_main isSafeToOverride_of_def split: sum.splits)

lemma statusText_of_noProfile: "statusText_of noProfileResponse = []"
  by (simp add: statusText_of_def noProfileResponse_def normalizeText_def trim_Nil)

lemma statusEmoji_of_noProfile: "statusEmoji_of noProfileResponse = []"
  by (simp add: statusEmoji_of_def noProfileResponse_def normalizeEmoji_def trim_Nil)

lemma exampleEnv_simps:
  "loadConfiguration_result exampleEnv = Inr exampleConfig"
  "repositoryDirectory exampleEnv = ascii ''/repo''"
  "trimLogFile_throws exampleEnv = (\<lambda>p. False)"
  "cacheFile exampleEnv = Absent"
  "pgrep_Spotify exampleEnv = Inr ()"
  "osascript_playerState exampleEnv = Inr (ascii ''playing'')"
  "osascript_track exampleEnv = Inr (ascii ''Artist - Song'')"
  "profileGet_result exampleEnv = (\<lambda>attempt. Inr noProfileResponse)"
  "profileSet_result exampleEnv = Inr \<lparr>ok = True, error = None\<rparr>"
  "writeFile_first exampleEnv = None"
  "writeFile_second exampleEnv = None"
  "getAllMatches exampleEnv = (\<lambda>t. [])"
  "applyTo exampleEnv = (\<lambda>t ms. t)"
  "float_add exampleEnv = (\<lambda>a b. a + b)"
  "now_loadCache exampleEnv = 1700000000"
  "now_observedAt exampleEnv = 1700000001"
  "now_saveCache_first exampleEnv = 1700000002"
  "now_expirationEpoch exampleEnv = 1700000003"
  "now_setAt exampleEnv = 1700000004"
  "now_saveCache_second exampleEnv = 1700000005"
  by (simp_all add: exampleEnv_def)

lemma playing_trimmed: "trim (ascii ''playing'') = ascii ''playing''"
  by (simp add: trim_def ascii_def isWhiteSpace_def)

text \<open>
  Claim C1, as stated, fails: Spotify runs and plays, the read returns \<open>ok: true\<close>
  with no status set (safe to override), but the track query throws; \<open>main\<close> is left
  by the exception and no status-set call is issued.
\<close>

theorem main_setCalls_track_query_counterexample:
  "\<not> (length (setCalls (events (main
          (exampleEnv\<lparr>osascript_track := Inl (Error ''osascript failed'')\<rparr>)))) = 1 \<longleftrightarrow>
        \<not> isl (pgrep_Spotify (exampleEnv\<lparr>osascript_track := Inl (Error ''osascript failed'')\<rparr>))
        \<and> snd (getSlackProfileWithRetry
                 (exampleEnv\<lparr>osascript_track := Inl (Error ''osascript failed'')\<rparr>)
                 (slackToken exampleConfig)) = Inr noProfileResponse
        \<and> ok noProfileResponse
        \<and> playerStateOf (exampleEnv\<lparr>osascript_track := Inl (Error ''osascript failed'')\<rparr>)
            = playing
        \<and> (isSafeToOverrideWhenPlayingTrack (statusText_of noProfileResponse)
              (statusEmoji_of noProfileResponse)
           \<or> isOwnedByScript_of
                (mkRuntimeConfig (exampleEnv\<lparr>osascript_track := Inl (Error ''osascript failed'')\<rparr>)
                   exampleConfig) noProfileResponse
           \<or> alwaysOverride
                (mkRuntimeConfig (exampleEnv\<lparr>osascript_track := Inl (Error ''osascript failed'')\<rparr>)
                   exampleConfig)))"
proof -
  let ?w = "exampleEnv\<lparr>osascript_track := Inl (Error ''osascript failed'')\<rparr>"
  have read: "snd (getSlackProfileWithRetry ?w (slackToken exampleConfig)) = Inr noProfileResponse"
    by (simp add: retry_unrolled exampleEnv_simps)
  have calls: "setCalls (events (main ?w)) = []"
    by (simp add: setCalls_main exampleEnv_simps read)
  have running: "\<not> isl (pgrep_Spotify ?w)"
    by (simp add: exampleEnv_simps)
  have okr: "ok noProfileResponse"
    by (simp add: noProfileResponse_def)
  have st: "playerStateOf ?w = playing"
    by (simp add: playerStateOf_eq exampleEnv_simps playing_trimmed)
  have safe: "isSafeToOverrideWhenPlayingTrack (statusText_of noProfileResponse)
      (statusEmoji_of noProfileResponse)"
    by (simp add: isSafeToOverrideWhenPlayingTrack_def statusText_of_noProfile)
  from calls running read okr st safe show ?thesis
    by simp
qed

section \<open>The profile reads, the timers and the cache writes of a run\<close>

lemma getCalls_simps:
  "getCalls [] = []"
  "getCalls (xs @ ys) = getCalls xs @ getCalls ys"
  "getCalls (Log l m # xs) = getCalls xs"
  "getCalls (Sleep n # xs) = getCalls xs"
  "getCalls (WriteCacheFile c t # xs) = getCalls xs"
  "getCalls (SlackApiCall token ''users.profile.set'' body # xs) = getCalls xs"
  "getCalls (SlackApiCall token ''users.profile.get'' body # xs) =
     SlackApiCall token ''users.profile.get'' body # getCalls xs"
  by (simp_all add: getCalls_def)

lemma sleeps_append: "sleeps (xs @ ys) = sleeps xs @ sleeps ys"
  by (induction xs rule: sleeps.induct) simp_all

lemma cacheWrites_append: "cacheWrites (xs @ ys) = cacheWrites xs @ cacheWrites ys"
  by (induction xs rule: cacheWrites.induct) simp_all

lemma preamble_quiet:
  "getCalls (preamble w config) = []"
  "sleeps (preamble w config) = []"
  "cacheWrites (preamble w config) = []"
  "filter isRetryEvent (preamble w config) = []"
  by (simp_all add: preamble_def Let_def getCalls_simps sleeps_append cacheWrites_append
      trimLogFile_fst loadCache_fst)

lemma retry_cacheWrites: "cacheWrites (fst (getSlackProfileWithRetry w token)) = []"
  by (simp add: retry_unrolled split: sum.splits)

lemma retry_snd:
  "snd (getSlackProfileWithRetry w token) =
     (case profileGet_result w 1 of
        Inr r \<Rightarrow> Inr r
      | Inl e1 \<Rightarrow> (case profileGet_result w 2 of Inr r \<Rightarrow> Inr r | Inl e2 \<Rightarrow> profileGet_result w 3))"
  by (simp add: retry_unrolled split: sum.splits)

lemma retry_all_retry_events:
  "filter isRetryEvent (fst (getSlackProfileWithRetry w token)) =
     fst (getSlackProfileWithRetry w token)"
  by (simp add: retry_unrolled split: sum.splits)

lemma retry_returns_after_read:
  assumes "snd (getSlackProfileWithRetry w token) = Inr r"
  shows "\<exists>before. fst (getSlackProfileWithRetry w token) =
      before @ [SlackApiCall token ''users.profile.get'' None]"
  using assms by (auto simp add: retry_unrolled split: sum.splits)

lemma main_update_quiet:
  "getCalls (fst (main_update w config rc cache)) = []"
  "sleeps (fst (main_update w config rc cache)) = []"
  "filter isRetryEvent (fst (main_update w config rc cache)) = []"
  by (simp_all add: main_update_eq getCalls_simps split: sum.splits option.splits)

lemma main_reconcile_quiet:
  "getCalls (fst (main_reconcile w config rc cache st r)) = []"
  "sleeps (fst (main_reconcile w config rc cache st r)) = []"
  "filter isRetryEvent (fst (main_reconcile w config rc cache st r)) = []"
  by (simp_all add: main_reconcile_eq getCalls_simps sleeps_append main_update_quiet
      split: option.splits)

lemma getCalls_main:
  "getCalls (events (main w)) =
     (case loadConfiguration_result w of
        Inl e \<Rightarrow> []
      | Inr config \<Rightarrow>
          if isl (pgrep_Spotify w) then []
          else getCalls (fst (getSlackProfileWithRetry w (slackToken config))))"
  by (simp add: events_main main_body_eq main_loaded_eq getCalls_simps preamble_quiet
      main_reconcile_quiet split: sum.splits)

lemma retryEvents_main:
  "filter isRetryEvent (events (main w)) =
     (case loadConfiguration_result w of
        Inl e \<Rightarrow> []
      | Inr config \<Rightarrow>
          if isl (pgrep_Spotify w) then []
          else fst (getSlackProfileWithRetry w (slackToken config)))"
  by (simp add: events_main main_body_eq main_loaded_eq preamble_quiet retry_all_retry_events
      main_reconcile_quiet split: sum.splits)

lemma main_exhausted:
  assumes "loadConfiguration_result w = Inr config" "\<not> isl (pgrep_Spotify w)"
    "snd (getSlackProfileWithRetry w (slackToken config)) = Inl e"
  shows "events (main w) =
      preamble w config
      @ [Log DEBUG ''Spotify running check'', Log INFO ''Spotify player state'']
      @ fst (getSlackProfileWithRetry w (slackToken config))
      @ [Log ERROR ''Fatal error'']"
    and "exitCode (main w) = 1" and "cacheAfter (main w) = None"
  using assms
  by (simp_all add: events_main exitCode_main cacheAfter_main main_body_eq main_loaded_eq)

lemma main_not_ok:
  assumes "loadConfiguration_result w = Inr config" "\<not> isl (pgrep_Spotify w)"
    "snd (getSlackProfileWithRetry w (slackToken config)) = Inr r" "\<not> ok r"
  shows "events (main w) =
      preamble w config
      @ [Log DEBUG ''Spotify running check'', Log INFO ''Spotify player state'']
      @ fst (getSlackProfileWithRetry w (slackToken config))
      @ [Log WARN ''Slack users.profile.get returned ok=false; skipping to avoid overrides'']"
    and "exitCode (main w) = 0" and "cacheAfter (main w) = Some (loadedCache w)"
  using assms
  by (simp_all add: events_main exitCode_main cacheAfter_main main_body_eq main_loaded_eq
      main_reconcile_eq)

lemma main_not_ok_ends:
  assumes "loadConfiguration_result w = Inr config" "\<not> isl (pgrep_Spotify w)"
    "snd (getSlackProfileWithRetry w (slackToken config)) = Inr r" "\<not> ok r"
  shows "\<exists>before. events (main w) =
      before @ [SlackApiCall (slackToken config) ''users.profile.get'' None,
        Log WARN ''Slack users.profile.get returned ok=false; skipping to avoid overrides'']"
proof -
  from retry_returns_after_read [OF assms(3)] obtain b
    where b: "fst (getSlackProfileWithRetry w (slackToken config)) =
      b @ [SlackApiCall (slackToken config) ''users.profile.get'' None]"
    by blast
  have "events (main w) =
      (preamble w config
       @ [Log DEBUG ''Spotify running check'', Log INFO ''Spotify player state''] @ b)
      @ [SlackApiCall (slackToken config) ''users.profile.get'' None,
        Log WARN ''Slack users.profile.get returned ok=false; skipping to avoid overrides'']"
    by (simp add: main_not_ok(1) [OF assms] b)
  then show ?thesis
    by blast
qed

text \<open>
  Claim C5: the profile read is attempted at most 3 times in a run. The reads, the
  warnings and the timers of a run are, in this order: one read when the first attempt
  returns; after each attempt that threw (network error or a body that is not JSON) the
  warning, then a timer of 250 ms times the attempt number, and only then the next
  read, up to the third. A response that parses is returned at once, and when it has
  \<open>ok: false\<close> the warning for it directly follows the read and ends the run, with no
  status-set call and no cache write. After 3 attempts that threw, the run ends with
  the error logged and no status-set call.
\<close>

theorem profile_read_retry:
  "length (getCalls (events (main w))) \<le> 3
   \<and> (loadConfiguration_result w = Inr config \<and> \<not> isl (pgrep_Spotify w) \<longrightarrow>
      (\<not> isl (profileGet_result w 1) \<longrightarrow>
         filter isRetryEvent (events (main w)) =
           [SlackApiCall (slackToken config) ''users.profile.get'' None])
      \<and> (isl (profileGet_result w 1) \<and> \<not> isl (profileGet_result w 2) \<longrightarrow>
         filter isRetryEvent (events (main w)) =
           [SlackApiCall (slackToken config) ''users.profile.get'' None,
            Log WARN ''Slack profile.get failed, retrying'', Sleep (250 * 1),
            SlackApiCall (slackToken config) ''users.profile.get'' None])
      \<and> (isl (profileGet_result w 1) \<and> isl (profileGet_result w 2)
          \<and> \<not> isl (profileGet_result w 3) \<longrightarrow>
         filter isRetryEvent (events (main w)) =
           [SlackApiCall (slackToken config) ''users.profile.get'' None,
            Log WARN ''Slack profile.get failed, retrying'', Sleep (250 * 1),
            SlackApiCall (slackToken config) ''users.profile.get'' None,
            Log WARN ''Slack profile.get failed, retrying'', Sleep (250 * 2),
            SlackApiCall (slackToken config) ''users.profile.get'' None])
      \<and> (isl (profileGet_result w 1) \<and> isl (profileGet_result w 2)
          \<and> isl (profileGet_result w 3) \<longrightarrow>
         filter isRetryEvent (events (main w)) =
           [SlackApiCall (slackToken config) ''users.profile.get'' None,
            Log WARN ''Slack profile.get failed, retrying'', Sleep (250 * 1),
            SlackApiCall (slackToken config) ''users.profile.get'' None,
            Log WARN ''Slack profile.get failed, retrying'', Sleep (250 * 2),
            SlackApiCall (slackToken config) ''users.profile.get'' None,
            Log WARN ''Slack profile.get failed, retrying'', Sleep (250 * 3)]
         \<and> setCalls (events (main w)) = []
         \<and> cacheWrites (events (main w)) = []
         \<and> last (events (main w)) = Log ERROR ''Fatal error'')
      \<and> (\<forall>r. snd (getSlackProfileWithRetry w (slackToken config)) = Inr r \<and> \<not> ok r \<longrightarrow>
         setCalls (events (main w)) = []
         \<and> cacheWrites (events (main w)) = []
         \<and> (\<exists>before. events (main w) =
               before @ [SlackApiCall (slackToken config) ''users.profile.get'' None,
                 Log WARN
                   ''Slack users.profile.get returned ok=false; skipping to avoid overrides''])))"
proof -
  have bound: "length (getCalls (events (main w))) \<le> 3"
    by (simp add: getCalls_main retry_unrolled getCalls_simps split: sum.splits)
  have rest: "?thesis" if c: "loadConfiguration_result w = Inr config"
    and p: "\<not> isl (pgrep_Spotify w)"
  proof -
    have g: "filter isRetryEvent (events (main w)) =
        fst (getSlackProfileWithRetry w (slackToken config))"
      using c p by (simp add: retryEvents_main)
    have a: "\<not> isl (profileGet_result w 1) \<longrightarrow>
         filter isRetryEvent (events (main w)) =
           [SlackApiCall (slackToken config) ''users.profile.get'' None]"
      by (auto simp add: g retry_unrolled isl_def split: sum.splits)
    have b: "isl (profileGet_result w 1) \<and> \<not> isl (profileGet_result w 2) \<longrightarrow>
         filter isRetryEvent (events (main w)) =
           [SlackApiCall (slackToken config) ''users.profile.get'' None,
            Log WARN ''Slack profile.get failed, retrying'', Sleep (250 * 1),
            SlackApiCall (slackToken config) ''users.profile.get'' None]"
      by (auto simp add: g retry_unrolled isl_def split: sum.splits)
    have d: "isl (profileGet_result w 1) \<and> isl (profileGet_result w 2)
          \<and> \<not> isl (profileGet_result w 3) \<longrightarrow>
         filter isRetryEvent (events (main w)) =
           [SlackApiCall (slackToken config) ''users.profile.get'' None,
            Log WARN ''Slack profile.get failed, retrying'', Sleep (250 * 1),
            SlackApiCall (slackToken config) ''users.profile.get'' None,
            Log WARN ''Slack profile.get failed, retrying'', Sleep (250 * 2),
            SlackApiCall (slackToken config) ''users.profile.get'' None]"
      by (auto simp add: g retry_unrolled isl_def split: sum.splits)
    have e: "isl (profileGet_result w 1) \<and> isl (profileGet_result w 2)
          \<and> isl (profileGet_result w 3) \<longrightarrow>
         filter isRetryEvent (events (main w)) =
           [SlackApiCall (slackToken config) ''users.profile.get'' None,
            Log WARN ''Slack profile.get failed, retrying'', Sleep (250 * 1),
            SlackApiCall (slackToken config) ''users.profile.get'' None,
            Log WARN ''Slack profile.get failed, retrying'', Sleep (250 * 2),
            SlackApiCall (slackToken config) ''users.profile.get'' None,
            Log WARN ''Slack profile.get failed, retrying'', Sleep (250 * 3)]
         \<and> setCalls (events (main w)) = []
         \<and> cacheWrites (events (main w)) = []
         \<and> last (events (main w)) = Log ERROR ''Fatal error''"
    proof
      assume f: "isl (profileGet_result w 1) \<and> isl (profileGet_result w 2)
          \<and> isl (profileGet_result w 3)"
      then obtain x where "profileGet_result w 3 = Inl x"
        by (cases "profileGet_result w 3") simp_all
      with f have x: "snd (getSlackProfileWithRetry w (slackToken config)) = Inl x"
        by (auto simp add: retry_snd isl_def)
      have "filter isRetryEvent (events (main w)) =
           [SlackApiCall (slackToken config) ''users.profile.get'' None,
            Log WARN ''Slack profile.get failed, retrying'', Sleep (250 * 1),
            SlackApiCall (slackToken config) ''users.profile.get'' None,
            Log WARN ''Slack profile.get failed, retrying'', Sleep (250 * 2),
            SlackApiCall (slackToken config) ''users.profile.get'' None,
            Log WARN ''Slack profile.get failed, retrying'', Sleep (250 * 3)]"
        using f by (auto simp add: g retry_unrolled isl_def split: sum.splits)
      moreover have "setCalls (events (main w)) = []"
        using c p x by (simp add: setCalls_main)
      moreover have "cacheWrites (events (main w)) = []"
        by (simp add: main_exhausted(1) [OF c p x] cacheWrites_append preamble_quiet
            retry_cacheWrites)
      moreover have "last (events (main w)) = Log ERROR ''Fatal error''"
        by (simp add: main_exhausted(1) [OF c p x])
      ultimately show "filter isRetryEvent (events (main w)) =
           [SlackApiCall (slackToken config) ''users.profile.get'' None,
            Log WARN ''Slack profile.get failed, retrying'', Sleep (250 * 1),
            SlackApiCall (slackToken config) ''users.profile.get'' None,
            Log WARN ''Slack profile.get failed, retrying'', Sleep (250 * 2),
            SlackApiCall (slackToken config) ''users.profile.get'' None,
            Log WARN ''Slack profile.get failed, retrying'', Sleep (250 * 3)]
         \<and> setCalls (events (main w)) = []
         \<and> cacheWrites (events (main w)) = []
         \<and> last (events (main w)) = Log ERROR ''Fatal error''"
        by simp
    qed
    have f: "\<forall>r. snd (getSlackProfileWithRetry w (slackToken config)) = Inr r \<and> \<not> ok r \<longrightarrow>
         setCalls (events (main w)) = []
         \<and> cacheWrites (events (main w)) = []
         \<and> (\<exists>before. events (main w) =
               before @ [SlackApiCall (slackToken config) ''users.profile.get'' None,
                 Log WARN
                   ''Slack users.profile.get returned ok=false; skipping to avoid overrides''])"
    proof (intro allI impI)
      fix r
      assume h: "snd (getSlackProfileWithRetry w (slackToken config)) = Inr r \<and> \<not> ok r"
      then have r: "snd (getSlackProfileWithRetry w (slackToken config)) = Inr r"
        and n: "\<not> ok r"
        by simp_all
      have "setCalls (events (main w)) = []"
        using c p r n by (simp add: setCalls_main)
      moreover have "cacheWrites (events (main w)) = []"
        by (simp add: main_not_ok(1) [OF c p r n] cacheWrites_append preamble_quiet
            retry_cacheWrites)
      ultimately show "setCalls (events (main w)) = []
         \<and> cacheWrites (events (main w)) = []
         \<and> (\<exists>before. events (main w) =
               before @ [SlackApiCall (slackToken config) ''users.profile.get'' None,
                 Log WARN
                   ''Slack users.profile.get returned ok=false; skipping to avoid overrides''])"
        using main_not_ok_ends [OF c p r n] by simp
    qed
    from bound a b d e f show ?thesis
      by blast
  qed
  from bound rest show ?thesis
    by blast
qed


theorem profile_read_retry_witness:
  "loadConfiguration_result (exampleEnv\<lparr>profileGet_result := (\<lambda>attempt. Inl (Error ''fetch failed''))\<rparr>)
     = Inr exampleConfig
   \<and> \<not> isl (pgrep_Spotify (exampleEnv\<lparr>profileGet_result := (\<lambda>attempt. Inl (Error ''fetch failed''))\<rparr>))
   \<and> isl (profileGet_result (exampleEnv\<lparr>profileGet_result := (\<lambda>attempt. Inl (Error ''fetch failed''))\<rparr>) 3)
   \<and> filter isRetryEvent (events (main
        (exampleEnv\<lparr>profileGet_result := (\<lambda>attempt. Inl (Error ''fetch failed''))\<rparr>))) =
       [SlackApiCall (ascii ''xoxp-1'') ''users.profile.get'' None,
        Log WARN ''Slack profile.get failed, retrying'', Sleep 250,
        SlackApiCall (ascii ''xoxp-1'') ''users.profile.get'' None,
        Log WARN ''Slack profile.get failed, retrying'', Sleep 500,
        SlackApiCall (ascii ''xoxp-1'') ''users.profile.get'' None,
        Log WARN ''Slack profile.get failed, retrying'', Sleep 750]
   \<and> setCalls (events (main
        (exampleEnv\<lparr>profileGet_result := (\<lambda>attempt. Inl (Error ''fetch failed''))\<rparr>))) = []
   \<and> last (events (main
        (exampleEnv\<lparr>profileGet_result := (\<lambda>attempt. Inl (Error ''fetch failed''))\<rparr>)))
       = Log ERROR ''Fatal error''
   \<and> filter isRetryEvent (events (main
        (exampleEnv\<lparr>profileGet_result :=
           (\<lambda>attempt. if attempt = 1 then Inl (Error ''fetch failed'')
                       else Inr noProfileResponse)\<rparr>))) =
       [SlackApiCall (ascii ''xoxp-1'') ''users.profile.get'' None,
        Log WARN ''Slack profile.get failed, retrying'', Sleep 250,
        SlackApiCall (ascii ''xoxp-1'') ''users.profile.get'' None]
   \<and> snd (getSlackProfileWithRetry
        (exampleEnv\<lparr>profileGet_result :=
           (\<lambda>attempt. Inr \<lparr>ok = False, error = Some (ascii ''invalid_auth''), profile = None\<rparr>)\<rparr>)
        (slackToken exampleConfig))
       = Inr \<lparr>ok = False, error = Some (ascii ''invalid_auth''), profile = None\<rparr>
   \<and> filter isRetryEvent (events (main
        (exampleEnv\<lparr>profileGet_result :=
           (\<lambda>attempt. Inr \<lparr>ok = False, error = Some (ascii ''invalid_auth''), profile = None\<rparr>)\<rparr>)))
       = [SlackApiCall (ascii ''xoxp-1'') ''users.profile.get'' None]
   \<and> setCalls (events (main
        (exampleEnv\<lparr>profileGet_result :=
           (\<lambda>attempt. Inr \<lparr>ok = False, error = Some (ascii ''invalid_auth''), profile = None\<rparr>)\<rparr>)))
       = []
   \<and> cacheWrites (events (main
        (exampleEnv\<lparr>profileGet_result :=
           (\<lambda>attempt. Inr \<lparr>ok = False, error = Some (ascii ''invalid_auth''), profile = None\<rparr>)\<rparr>)))
       = []"
proof -
  let ?a = "exampleEnv\<lparr>profileGet_result := (\<lambda>attempt. Inl (Error ''fetch failed''))\<rparr>"
  let ?r = "\<lparr>ok = False, error = Some (ascii ''invalid_auth''), profile = None\<rparr>"
  let ?b = "exampleEnv\<lparr>profileGet_result := (\<lambda>attempt. Inr ?r)\<rparr>"
  let ?c = "exampleEnv\<lparr>profileGet_result :=
           (\<lambda>attempt. if attempt = 1 then Inl (Error ''fetch failed'')
                       else Inr noProfileResponse)\<rparr>"
  have t: "slackToken exampleConfig = ascii ''xoxp-1''"
    by (simp add: exampleConfig_def)
  have a: "loadConfiguration_result ?a = Inr exampleConfig" "\<not> isl (pgrep_Spotify ?a)"
    "isl (profileGet_result ?a 1)" "isl (profileGet_result ?a 2)" "isl (profileGet_result ?a 3)"
    by (simp_all add: exampleEnv_simps)
  have b: "loadConfiguration_result ?b = Inr exampleConfig" "\<not> isl (pgrep_Spotify ?b)"
    "\<not> isl (profileGet_result ?b 1)"
    "snd (getSlackProfileWithRetry ?b (slackToken exampleConfig)) = Inr ?r" "\<not> ok ?r"
    by (simp_all add: exampleEnv_simps retry_snd)
  have c: "loadConfiguration_result ?c = Inr exampleConfig" "\<not> isl (pgrep_Spotify ?c)"
    "isl (profileGet_result ?c 1)" "\<not> isl (profileGet_result ?c 2)"
    by (simp_all add: exampleEnv_simps)
  from a b c show ?thesis
    using profile_read_retry [of ?a exampleConfig] profile_read_retry [of ?b exampleConfig]
      profile_read_retry [of ?c exampleConfig]
    by (simp add: t)
qed

section \<open>The cache writes of a run\<close>

lemma cacheFileAfter_append:
  "cacheFileAfter (xs @ ys) =
     (case cacheFileAfter ys of None \<Rightarrow> cacheFileAfter xs | Some later \<Rightarrow> Some later)"
  by (induction xs rule: cacheFileAfter.induct) (simp_all split: option.splits)

lemma cacheFileAfter_no_writes: "cacheWrites xs = [] \<Longrightarrow> cacheFileAfter xs = None"
  by (induction xs rule: cacheWrites.induct) simp_all





lemma main_write_thrown:
  assumes "loadConfiguration_result w = Inr config" "\<not> isl (pgrep_Spotify w)"
    "snd (getSlackProfileWithRetry w (slackToken config)) = Inr r" "ok r"
    "writeFile_first w \<noteq> None"
  shows "cacheFileAfter (events (main w)) = None"
    and "exitCode (main w) = 1"
  using assms
  by (auto simp add: events_main exitCode_main main_body_eq main_loaded_eq
      main_reconcile_eq cacheFileAfter_append cacheFileAfter_no_writes preamble_quiet
      retry_cacheWrites)






lemma loadedCache_Absent: "cacheFile w = Absent \<Longrightarrow> loadedCache w = freshCache (now_loadCache w)"
  by (simp add: loadedCache_def loadCache_try_def)


lemma earlierCache_parsed:
  "cacheSchema_safeParse (earlierCacheJson 1) =
     Some \<lparr>updatedAt = 1699999999,
       lastNonEmptyNonOwned = Some \<lparr>text' = ascii ''Meeting'', emoji' = ascii '':calendar:'',
         expiration' = 1699990000, observedAt = 1699980000\<rparr>,
       emptyRead = Some \<lparr>lastSeenAt = 1699999990, consecutiveCount = 1\<rparr>,
       lastSetByScript = None, passthrough = []\<rparr>"
  by (simp add: earlierCacheJson_def cacheSchema_safeParse_def z_number_finite_min0_def
      z_optional_def z_string_def z_number_int_min0_def lastNonEmptyNonOwned_schema_def
      emptyRead_schema_def cacheSchema_keys_def ascii_def)



text \<open>
  Claim C4, as stated, fails in its second part: the run reaches the classification
  with a foreign, fully set status, but the write of the cache file throws; nothing is
  persisted, and the run ends with exit code 1.
\<close>

theorem cache_write_thrown_counterexample:
  "\<not> isl (loadConfiguration_result
          (exampleEnv\<lparr>profileGet_result := (\<lambda>attempt. Inr lunchResponse),
             writeFile_first := Some (Error ''ENOSPC: no space left on device'')\<rparr>))
   \<and> \<not> isl (pgrep_Spotify
          (exampleEnv\<lparr>profileGet_result := (\<lambda>attempt. Inr lunchResponse),
             writeFile_first := Some (Error ''ENOSPC: no space left on device'')\<rparr>))
   \<and> snd (getSlackProfileWithRetry
          (exampleEnv\<lparr>profileGet_result := (\<lambda>attempt. Inr lunchResponse),
             writeFile_first := Some (Error ''ENOSPC: no space left on device'')\<rparr>)
          (slackToken exampleConfig)) = Inr lunchResponse
   \<and> ok lunchResponse
   \<and> cacheFileAfter (events (main
          (exampleEnv\<lparr>profileGet_result := (\<lambda>attempt. Inr lunchResponse),
             writeFile_first := Some (Error ''ENOSPC: no space left on device'')\<rparr>))) = None
   \<and> exitCode (main
          (exampleEnv\<lparr>profileGet_result := (\<lambda>attempt. Inr lunchResponse),
             writeFile_first := Some (Error ''ENOSPC: no space left on device'')\<rparr>)) = 1"
proof -
  let ?w = "exampleEnv\<lparr>profileGet_result := (\<lambda>attempt. Inr lunchResponse),
             writeFile_first := Some (Error ''ENOSPC: no space left on device'')\<rparr>"
  have h: "loadConfiguration_result ?w = Inr exampleConfig" "\<not> isl (pgrep_Spotify ?w)"
    "snd (getSlackProfileWithRetry ?w (slackToken exampleConfig)) = Inr lunchResponse"
    "ok lunchResponse" "writeFile_first ?w \<noteq> None"
    by (simp_all add: exampleEnv_simps retry_snd lunchResponse_def)
  from h main_write_thrown [OF h] show ?thesis
    by simp
qed




section \<open>The set step\<close>




lemma main_set_step:
  assumes "loadConfiguration_result w = Inr config" "\<not> isl (pgrep_Spotify w)"
    "snd (getSlackProfileWithRetry w (slackToken config)) = Inr r" "ok r"
    "writeFile_first w = None" "playerStateOf w = playing"
    "isSafeToOverride_of (mkRuntimeConfig w config) r \<or> alwaysOverride (mkRuntimeConfig w config)"
  shows "events (main w) =
      (preamble w config
       @ [Log DEBUG ''Spotify running check'', Log INFO ''Spotify player state'']
       @ fst (getSlackProfileWithRetry w (slackToken config)))
      @ [Log INFO ''Slack current status snapshot'',
         WriteCacheFile ((classified w (mkRuntimeConfig w config) (loadedCache w) r)
           \<lparr>updatedAt := of_int (now_saveCache_first w)\<rparr>) None]
      @ fst (main_update w config (mkRuntimeConfig w config)
               ((classified w (mkRuntimeConfig w config) (loadedCache w) r)
                  \<lparr>updatedAt := of_int (now_saveCache_first w)\<rparr>))
      @ (if isl (snd (main_body w)) then [Log ERROR ''Fatal error''] else [])"
    and "snd (main_body w) =
      snd (main_update w config (mkRuntimeConfig w config)
               ((classified w (mkRuntimeConfig w config) (loadedCache w) r)
                  \<lparr>updatedAt := of_int (now_saveCache_first w)\<rparr>))"
  using assms
  by (auto simp add: events_main main_body_eq main_loaded_eq main_reconcile_eq)

lemma lastSetByScript_classified:
  "lastSetByScript ((classified w rc cache r)\<lparr>updatedAt := t\<rparr>) = lastSetByScript cache"
  by (simp add: classified_def)


lemma main_set_succeeded:
  assumes "loadConfiguration_result w = Inr config" "\<not> isl (pgrep_Spotify w)"
    "snd (getSlackProfileWithRetry w (slackToken config)) = Inr r" "ok r"
    "writeFile_first w = None" "playerStateOf w = playing"
    "isSafeToOverride_of (mkRuntimeConfig w config) r \<or> alwaysOverride (mkRuntimeConfig w config)"
    "osascript_track w = Inr out"
    "profileSet_result w = Inr setResponse" "ok setResponse"
  shows "cacheWrites (events (main w)) =
      [(classified w (mkRuntimeConfig w config) (loadedCache w) r)
         \<lparr>updatedAt := of_int (now_saveCache_first w)\<rparr>,
       (classified w (mkRuntimeConfig w config) (loadedCache w) r)
         \<lparr>updatedAt := of_int (now_saveCache_first w),
          lastSetByScript := Some (scriptEntry w (mkRuntimeConfig w config) out),
          updatedAt := of_int (now_saveCache_second w)\<rparr>]"
    and "\<exists>before after. events (main w) =
      before @ [SlackApiCall (slackToken config) ''users.profile.set''
                  (Some (sentProfile w (mkRuntimeConfig w config) out)),
                WriteCacheFile ((classified w (mkRuntimeConfig w config) (loadedCache w) r)
                  \<lparr>updatedAt := of_int (now_saveCache_first w),
                   lastSetByScript := Some (scriptEntry w (mkRuntimeConfig w config) out),
                   updatedAt := of_int (now_saveCache_second w)\<rparr>) (writeFile_second w)]
        @ after"
    and "writeFile_second w = None \<Longrightarrow>
      cacheFileAfter (events (main w)) =
        Some ((classified w (mkRuntimeConfig w config) (loadedCache w) r)
         \<lparr>updatedAt := of_int (now_saveCache_first w),
          lastSetByScript := Some (scriptEntry w (mkRuntimeConfig w config) out),
          updatedAt := of_int (now_saveCache_second w)\<rparr>)
      \<and> cacheAfter (main w) =
        Some ((classified w (mkRuntimeConfig w config) (loadedCache w) r)
         \<lparr>updatedAt := of_int (now_saveCache_first w),
          lastSetByScript := Some (scriptEntry w (mkRuntimeConfig w config) out),
          updatedAt := of_int (now_saveCache_second w)\<rparr>)
      \<and> exitCode (main w) = 0"
    and "writeFile_second w \<noteq> None \<Longrightarrow>
      cacheFileAfter (events (main w)) =
        Some ((classified w (mkRuntimeConfig w config) (loadedCache w) r)
         \<lparr>updatedAt := of_int (now_saveCache_first w)\<rparr>)
      \<and> cacheAfter (main w) = None
      \<and> exitCode (main w) = 1"
proof -
  let ?rc = "mkRuntimeConfig w config"
  let ?first = "(classified w ?rc (loadedCache w) r)\<lparr>updatedAt := of_int (now_saveCache_first w)\<rparr>"
  let ?second = "?first\<lparr>lastSetByScript := Some (scriptEntry w ?rc out),
                       updatedAt := of_int (now_saveCache_second w)\<rparr>"
  let ?request = "SlackApiCall (slackToken config) ''users.profile.set''
      (Some (sentProfile w ?rc out))"
  note gate = assms(1-7)
  have u: "fst (main_update w config ?rc ?first) =
      [Log INFO ''Updating Slack status to current track'', ?request,
       WriteCacheFile ?second (writeFile_second w)]
      @ (if writeFile_second w = None then [Log INFO ''Done''] else [])"
    using assms(8-10) by (simp add: main_update_eq split: option.splits)
  have v: "snd (main_update w config ?rc ?first) =
      (case writeFile_second w of None \<Rightarrow> Inr ?second | Some e \<Rightarrow> Inl e)"
    using assms(8-10) by (simp add: main_update_eq split: option.splits)
  have b: "snd (main_body w) = (case writeFile_second w of None \<Rightarrow> Inr ?second | Some e \<Rightarrow> Inl e)"
    by (simp add: main_set_step(2) [OF gate] v)
  show "cacheWrites (events (main w)) = [?first, ?second]"
    by (simp add: main_set_step(1) [OF gate] u cacheWrites_append preamble_quiet
        retry_cacheWrites)
  have "events (main w) =
      ((preamble w config
       @ [Log DEBUG ''Spotify running check'', Log INFO ''Spotify player state'']
       @ fst (getSlackProfileWithRetry w (slackToken config)))
      @ [Log INFO ''Slack current status snapshot'', WriteCacheFile ?first None,
         Log INFO ''Updating Slack status to current track''])
      @ [?request, WriteCacheFile ?second (writeFile_second w)]
      @ ((if writeFile_second w = None then [Log INFO ''Done''] else [])
         @ (if isl (snd (main_body w)) then [Log ERROR ''Fatal error''] else []))"
    by (simp add: main_set_step(1) [OF gate] u)
  then show "\<exists>before after. events (main w) =
      before @ [?request, WriteCacheFile ?second (writeFile_second w)] @ after"
    by blast
  show "cacheFileAfter (events (main w)) = Some ?second
      \<and> cacheAfter (main w) = Some ?second \<and> exitCode (main w) = 0"
    if "writeFile_second w = None"
    using that
    by (simp add: main_set_step(1) [OF gate] u b cacheFileAfter_append cacheAfter_main
        exitCode_main)
  show "cacheFileAfter (events (main w)) = Some ?first
      \<and> cacheAfter (main w) = None \<and> exitCode (main w) = 1"
    if "writeFile_second w \<noteq> None"
    using that
    by (auto simp add: main_set_step(1) [OF gate] u b cacheFileAfter_append cacheAfter_main
        exitCode_main)
qed


lemma censoringEnv_simps:
  "loadConfiguration_result censoringEnv = Inr customConfig"
  "repositoryDirectory censoringEnv = ascii ''/repo''"
  "trimLogFile_throws censoringEnv = (\<lambda>p. False)"
  "cacheFile censoringEnv = Absent"
  "pgrep_Spotify censoringEnv = Inr ()"
  "osascript_playerState censoringEnv = Inr (ascii ''playing'')"
  "osascript_track censoringEnv = Inr (ascii ''Damn - Song'' @ [0x000A])"
  "profileGet_result censoringEnv = (\<lambda>attempt. Inr noProfileResponse)"
  "profileSet_result censoringEnv = Inr \<lparr>ok = True, error = None\<rparr>"
  "writeFile_first censoringEnv = None"
  "writeFile_second censoringEnv = None"
  "getAllMatches censoringEnv = (\<lambda>t. if t = ascii ''Damn - Song'' then [(0, 3)] else [])"
  "applyTo censoringEnv = (\<lambda>t ms. ascii ''****'' @ drop 4 t)"
  "float_add censoringEnv = (\<lambda>a b. a + b)"
  "now_loadCache censoringEnv = 1700000000"
  "now_observedAt censoringEnv = 1700000001"
  "now_saveCache_first censoringEnv = 1700000002"
  "now_expirationEpoch censoringEnv = 1700000003"
  "now_setAt censoringEnv = 1700000004"
  "now_saveCache_second censoringEnv = 1700000005"
  by (simp_all add: censoringEnv_def exampleEnv_simps)


lemma noProfile_safe: "isSafeToOverride_of rc noProfileResponse"
  by (simp add: isSafeToOverride_of_def isSafeToOverrideWhenPlayingTrack_def
      statusText_of_noProfile)



text \<open>
  Claim C6, as stated, fails in its last part: the set step is reached and the response
  to the status-set call has \<open>ok: true\<close>, but the write of the cache file that follows
  throws; the file keeps the entry it had, without the values that were sent, and the
  run ends with exit code 1.
\<close>

theorem set_step_write_thrown_counterexample:
  "loadConfiguration_result
       (censoringEnv\<lparr>writeFile_second := Some (Error ''ENOSPC: no space left on device'')\<rparr>)
     = Inr customConfig
   \<and> \<not> isl (pgrep_Spotify
       (censoringEnv\<lparr>writeFile_second := Some (Error ''ENOSPC: no space left on device'')\<rparr>))
   \<and> playerStateOf
       (censoringEnv\<lparr>writeFile_second := Some (Error ''ENOSPC: no space left on device'')\<rparr>)
     = playing
   \<and> snd (getSlackProfileWithRetry
       (censoringEnv\<lparr>writeFile_second := Some (Error ''ENOSPC: no space left on device'')\<rparr>)
       (slackToken customConfig)) = Inr noProfileResponse
   \<and> ok noProfileResponse
   \<and> length (setCalls (events (main
       (censoringEnv\<lparr>writeFile_second := Some (Error ''ENOSPC: no space left on device'')\<rparr>))))
     = 1
   \<and> profileSet_result
       (censoringEnv\<lparr>writeFile_second := Some (Error ''ENOSPC: no space left on device'')\<rparr>)
     = Inr \<lparr>ok = True, error = None\<rparr>
   \<and> map_option lastSetByScript (cacheFileAfter (events (main
       (censoringEnv\<lparr>writeFile_second := Some (Error ''ENOSPC: no space left on device'')\<rparr>))))
     = Some None
   \<and> exitCode (main
       (censoringEnv\<lparr>writeFile_second := Some (Error ''ENOSPC: no space left on device'')\<rparr>))
     = 1"
proof -
  let ?w = "censoringEnv\<lparr>writeFile_second := Some (Error ''ENOSPC: no space left on device'')\<rparr>"
  have h: "loadConfiguration_result ?w = Inr customConfig" "\<not> isl (pgrep_Spotify ?w)"
    "snd (getSlackProfileWithRetry ?w (slackToken customConfig)) = Inr noProfileResponse"
    "ok noProfileResponse" "writeFile_first ?w = None" "playerStateOf ?w = playing"
    "isSafeToOverride_of (mkRuntimeConfig ?w customConfig) noProfileResponse
     \<or> alwaysOverride (mkRuntimeConfig ?w customConfig)"
    "osascript_track ?w = Inr (ascii ''Damn - Song'' @ [0x000A])"
    "profileSet_result ?w = Inr \<lparr>ok = True, error = None\<rparr>"
    "ok \<lparr>ok = True, error = None\<rparr>"
    by (simp_all add: censoringEnv_simps retry_snd playerStateOf_eq playing_trimmed
        noProfile_safe) (simp add: noProfileResponse_def)
  have t: "writeFile_second ?w \<noteq> None" "loadedCache ?w = freshCache 1700000000"
    by (simp_all add: censoringEnv_simps loadedCache_Absent)
  have "length (setCalls (events (main ?w))) = 1"
    using h by (simp add: setCalls_main)
  with h main_set_succeeded(4) [OF h t(1)] t(2) show ?thesis
    by (simp add: lastSetByScript_classified freshCache_def)
qed




section \<open>The exit code of a run\<close>














section \<open>A profile without a status\<close>

lemma absent_fields:
  "(case profile r of None \<Rightarrow> True | Some p \<Rightarrow> status_text p = None) \<Longrightarrow> statusText_of r = []"
  "(case profile r of None \<Rightarrow> True | Some p \<Rightarrow> status_emoji p = None) \<Longrightarrow> statusEmoji_of r = []"
  "(case profile r of None \<Rightarrow> True | Some p \<Rightarrow> status_expiration p = None) \<Longrightarrow>
     statusExpiration_of r = 0"
  by (simp_all add: statusText_of_def statusEmoji_of_def statusExpiration_of_def
      normalizeText_def normalizeEmoji_def orElse_def trim_Nil split: option.splits)

text \<open>
  Claim C10, as stated, fails in its last part: the read returns \<open>ok: true\<close> without a
  profile and Spotify is playing, but the cache write that follows the classification
  throws; the run ends there and no status-set call is issued.
\<close>

theorem no_profile_write_failure_counterexample:
  "ok noProfileResponse
   \<and> profile noProfileResponse = None
   \<and> snd (getSlackProfileWithRetry
        (exampleEnv\<lparr>writeFile_first := Some (Error ''EACCES: permission denied'')\<rparr>)
        (slackToken exampleConfig)) = Inr noProfileResponse
   \<and> playerStateOf (exampleEnv\<lparr>writeFile_first := Some (Error ''EACCES: permission denied'')\<rparr>)
       = playing
   \<and> setCalls (events (main
        (exampleEnv\<lparr>writeFile_first := Some (Error ''EACCES: permission denied'')\<rparr>))) = []"
  by (simp add: setCalls_main exampleEnv_simps retry_snd playerStateOf_eq playing_trimmed
      noProfileResponse_def)

text \<open>
  Claim C10, amended: a field that is absent from the profile response (or a response
  without a profile) gives text \<open>""\<close>, emoji \<open>""\<close>, expiration \<open>0\<close>; with an \<open>ok: true\<close>
  response that has no profile, or a profile with none of the three fields, the
  snapshot is classified empty and safe to override; then, while the player state is
  \<open>playing\<close>, the run passes the override gate whatever \<open>alwaysOverride\<close> is, and it
  issues one status-set call provided the cache write after the classification and the
  track query succeed.
\<close>

theorem no_profile_defaults:
  "((case profile r of None \<Rightarrow> True | Some p \<Rightarrow> status_text p = None) \<longrightarrow>
      statusText_of r = [])
   \<and> ((case profile r of None \<Rightarrow> True | Some p \<Rightarrow> status_emoji p = None) \<longrightarrow>
      statusEmoji_of r = [])
   \<and> ((case profile r of None \<Rightarrow> True | Some p \<Rightarrow> status_expiration p = None) \<longrightarrow>
      statusExpiration_of r = 0)
   \<and> (ok r
       \<and> (profile r = None
          \<or> profile r = Some \<lparr>status_text = None, status_emoji = None,
                               status_expiration = None\<rparr>) \<longrightarrow>
       statusText_of r = [] \<and> statusEmoji_of r = [] \<and> statusExpiration_of r = 0
       \<and> isEmptySlackStatus (statusText_of r) (statusEmoji_of r)
       \<and> isSafeToOverrideWhenPlayingTrack (statusText_of r) (statusEmoji_of r)
       \<and> isSafeToOverride_of (mkRuntimeConfig w config) r
       \<and> (loadConfiguration_result w = Inr config
           \<and> \<not> isl (pgrep_Spotify w)
           \<and> snd (getSlackProfileWithRetry w (slackToken config)) = Inr r
           \<and> playerStateOf w = playing
           \<and> writeFile_first w = None
           \<and> \<not> isl (osascript_track w) \<longrightarrow>
           length (setCalls (events (main w))) = 1))"
proof -
  have fields: "((case profile r of None \<Rightarrow> True | Some p \<Rightarrow> status_text p = None) \<longrightarrow>
      statusText_of r = [])
   \<and> ((case profile r of None \<Rightarrow> True | Some p \<Rightarrow> status_emoji p = None) \<longrightarrow>
      statusEmoji_of r = [])
   \<and> ((case profile r of None \<Rightarrow> True | Some p \<Rightarrow> status_expiration p = None) \<longrightarrow>
      statusExpiration_of r = 0)"
    by (simp add: absent_fields)
  have whole: "statusText_of r = [] \<and> statusEmoji_of r = [] \<and> statusExpiration_of r = 0
       \<and> isEmptySlackStatus (statusText_of r) (statusEmoji_of r)
       \<and> isSafeToOverrideWhenPlayingTrack (statusText_of r) (statusEmoji_of r)
       \<and> isSafeToOverride_of (mkRuntimeConfig w config) r
       \<and> (loadConfiguration_result w = Inr config
           \<and> \<not> isl (pgrep_Spotify w)
           \<and> snd (getSlackProfileWithRetry w (slackToken config)) = Inr r
           \<and> playerStateOf w = playing
           \<and> writeFile_first w = None
           \<and> \<not> isl (osascript_track w) \<longrightarrow>
           length (setCalls (events (main w))) = 1)"
    if o: "ok r" and p: "profile r = None
          \<or> profile r = Some \<lparr>status_text = None, status_emoji = None,
                               status_expiration = None\<rparr>"
  proof -
    from p have t: "statusText_of r = []" and e: "statusEmoji_of r = []"
      and x: "statusExpiration_of r = 0"
      by (auto intro: absent_fields)
    have empty: "isEmptySlackStatus (statusText_of r) (statusEmoji_of r)"
      by (simp add: t e isEmptySlackStatus_def normalizeText_def normalizeEmoji_def trim_Nil)
    have safe: "isSafeToOverrideWhenPlayingTrack (statusText_of r) (statusEmoji_of r)"
      by (simp add: t isSafeToOverrideWhenPlayingTrack_def)
    then have gate: "isSafeToOverride_of (mkRuntimeConfig w config) r"
      by (simp add: isSafeToOverride_of_def)
    have call: "loadConfiguration_result w = Inr config
           \<and> \<not> isl (pgrep_Spotify w)
           \<and> snd (getSlackProfileWithRetry w (slackToken config)) = Inr r
           \<and> playerStateOf w = playing
           \<and> writeFile_first w = None
           \<and> \<not> isl (osascript_track w) \<longrightarrow>
           length (setCalls (events (main w))) = 1"
      using o gate by (auto simp add: setCalls_main split: sum.splits)
    from t e x empty safe gate call show ?thesis
      by blast
  qed
  from fields whole show ?thesis
    by blast
qed

theorem no_profile_defaults_witness:
  "ok noProfileResponse \<and> profile noProfileResponse = None
   \<and> loadConfiguration_result exampleEnv = Inr exampleConfig
   \<and> \<not> isl (pgrep_Spotify exampleEnv)
   \<and> snd (getSlackProfileWithRetry exampleEnv (slackToken exampleConfig)) = Inr noProfileResponse
   \<and> playerStateOf exampleEnv = playing
   \<and> writeFile_first exampleEnv = None
   \<and> \<not> isl (osascript_track exampleEnv)
   \<and> statusText_of noProfileResponse = [] \<and> statusEmoji_of noProfileResponse = []
   \<and> statusExpiration_of noProfileResponse = 0
   \<and> isEmptySlackStatus (statusText_of noProfileResponse) (statusEmoji_of noProfileResponse)
   \<and> length (setCalls (events (main exampleEnv))) = 1
   \<and> statusText_of \<lparr>ok = True, error = None, profile = Some
        \<lparr>status_text = None, status_emoji = Some (ascii '':pizza:''),
         status_expiration = None\<rparr>\<rparr> = []
   \<and> statusExpiration_of \<lparr>ok = True, error = None, profile = Some
        \<lparr>status_text = None, status_emoji = Some (ascii '':pizza:''),
         status_expiration = None\<rparr>\<rparr> = 0
   \<and> statusEmoji_of \<lparr>ok = True, error = None, profile = Some
        \<lparr>status_text = Some (ascii ''Lunch''), status_emoji = None,
         status_expiration = Some 1700003600\<rparr>\<rparr> = []"
proof -
  let ?p = "\<lparr>ok = True, error = None, profile = Some
        \<lparr>status_text = None, status_emoji = Some (ascii '':pizza:''),
         status_expiration = None\<rparr>\<rparr>"
  let ?q = "\<lparr>ok = True, error = None, profile = Some
        \<lparr>status_text = Some (ascii ''Lunch''), status_emoji = None,
         status_expiration = Some 1700003600\<rparr>\<rparr>"
  have h: "ok noProfileResponse" "profile noProfileResponse = None"
    by (simp_all add: noProfileResponse_def)
  have g: "loadConfiguration_result exampleEnv = Inr exampleConfig"
    "\<not> isl (pgrep_Spotify exampleEnv)"
    "snd (getSlackProfileWithRetry exampleEnv (slackToken exampleConfig)) = Inr noProfileResponse"
    "playerStateOf exampleEnv = playing"
    "writeFile_first exampleEnv = None"
    "\<not> isl (osascript_track exampleEnv)"
    by (simp_all add: exampleEnv_simps retry_snd playerStateOf_eq playing_trimmed)
  have "statusText_of ?p = [] \<and> statusExpiration_of ?p = 0"
    using no_profile_defaults [of ?p exampleEnv exampleConfig] by simp
  moreover have "statusEmoji_of ?q = []"
    using no_profile_defaults [of ?q exampleEnv exampleConfig] by simp
  ultimately show ?thesis
    using h g no_profile_defaults [of noProfileResponse exampleEnv exampleConfig]
    by auto
qed

section \<open>Loading the cache\<close>

lemma map_of_append_known:
  assumes "\<forall>kv \<in> set extra. fst kv \<noteq> k"
  shows "(map_of extra ++ map_of kvs) k = map_of kvs k"
proof -
  from assms have "k \<notin> fst ` set extra"
    by auto
  then have "map_of extra k = None"
    by (simp add: map_of_eq_None_iff)
  then show ?thesis
    by (simp add: map_add_def split: option.splits)
qed

lemma cacheSchema_keys_mem:
  "ascii ''updatedAt'' \<in> set cacheSchema_keys"
  "ascii ''lastNonEmptyNonOwned'' \<in> set cacheSchema_keys"
  "ascii ''emptyRead'' \<in> set cacheSchema_keys"
  "ascii ''lastSetByScript'' \<in> set cacheSchema_keys"
  by (simp_all add: cacheSchema_keys_def)

lemma safeParse_extra:
  assumes "cacheSchema_safeParse (JObject kvs) = Some c"
    and "\<forall>kv \<in> set extra. fst kv \<notin> set cacheSchema_keys"
  shows "cacheSchema_safeParse (JObject (kvs @ extra)) =
      Some (c\<lparr>passthrough :=
        passthrough c @ filter (\<lambda>kv. fst kv \<noteq> ascii ''__proto__'') extra\<rparr>)"
proof -
  have m: "(map_of extra ++ map_of kvs) k = map_of kvs k" if "k \<in> set cacheSchema_keys" for k
    using assms(2) that by (intro map_of_append_known) auto
  have f: "filter (\<lambda>kv. fst kv \<notin> set cacheSchema_keys \<and> fst kv \<noteq> ascii ''__proto__'') extra =
      filter (\<lambda>kv. fst kv \<noteq> ascii ''__proto__'') extra"
    using assms(2) by (intro filter_cong) auto
  from assms(1) show ?thesis
    by (auto simp add: cacheSchema_safeParse_def m cacheSchema_keys_mem f
        split: Option.bind_splits)
qed

text \<open>
  Claim C9: \<open>loadCache\<close> never throws; when the file is missing, cannot be read, is
  not JSON, or holds a value that the schema rejects, the cache is the fresh one, with
  \<open>updatedAt\<close> the current time and nothing else; a value that the schema accepts is
  what \<open>loadCache\<close> returns, and it is still accepted, with the same four fields, when
  properties with names unknown to the schema are added to it.
\<close>

theorem loadCache_recovers:
  "snd (loadCache w) = Inr (loadedCache w)
   \<and> (cacheFile w = Absent \<or> (\<exists>e. cacheFile w = Unreadable e)
       \<or> (\<exists>e. cacheFile w = Malformed e)
       \<or> (\<exists>j. cacheFile w = Holds j \<and> cacheSchema_safeParse j = None) \<longrightarrow>
       loadedCache w =
         \<lparr>updatedAt = of_int (now_loadCache w), lastNonEmptyNonOwned = None,
          emptyRead = None, lastSetByScript = None, passthrough = []\<rparr>)
   \<and> (cacheFile w = Holds j \<and> cacheSchema_safeParse j = Some c \<longrightarrow> loadedCache w = c)
   \<and> (cacheSchema_safeParse (JObject kvs) = Some c
       \<and> (\<forall>kv \<in> set extra. fst kv \<notin> set cacheSchema_keys) \<longrightarrow>
       (\<exists>kept. cacheSchema_safeParse (JObject (kvs @ extra)) =
          Some (c\<lparr>passthrough := kept\<rparr>)))"
proof -
  have a: "snd (loadCache w) = Inr (loadedCache w)"
    by (rule loadCache_snd)
  have b: "cacheFile w = Absent \<or> (\<exists>e. cacheFile w = Unreadable e)
       \<or> (\<exists>e. cacheFile w = Malformed e)
       \<or> (\<exists>j. cacheFile w = Holds j \<and> cacheSchema_safeParse j = None) \<longrightarrow>
       loadedCache w =
         \<lparr>updatedAt = of_int (now_loadCache w), lastNonEmptyNonOwned = None,
          emptyRead = None, lastSetByScript = None, passthrough = []\<rparr>"
    by (auto simp add: loadedCache_def loadCache_try_def parseCache_def freshCache_def)
  have c: "cacheFile w = Holds j \<and> cacheSchema_safeParse j = Some c \<longrightarrow> loadedCache w = c"
    by (simp add: loadedCache_def loadCache_try_def parseCache_def)
  have d: "cacheSchema_safeParse (JObject kvs) = Some c
       \<and> (\<forall>kv \<in> set extra. fst kv \<notin> set cacheSchema_keys) \<longrightarrow>
       (\<exists>kept. cacheSchema_safeParse (JObject (kvs @ extra)) =
          Some (c\<lparr>passthrough := kept\<rparr>))"
    using safeParse_extra [of kvs c extra] by blast
  from a b c d show ?thesis
    by (intro conjI)
qed

theorem loadCache_recovers_witness:
  "cacheFile exampleEnv = Absent
   \<and> loadedCache exampleEnv =
       \<lparr>updatedAt = 1700000000, lastNonEmptyNonOwned = None, emptyRead = None,
        lastSetByScript = None, passthrough = []\<rparr>
   \<and> cacheSchema_safeParse (JObject [(ascii ''updatedAt'', JString (ascii ''yesterday''))]) = None
   \<and> loadedCache (exampleEnv\<lparr>cacheFile :=
         Holds (JObject [(ascii ''updatedAt'', JString (ascii ''yesterday''))])\<rparr>) =
       \<lparr>updatedAt = 1700000000, lastNonEmptyNonOwned = None, emptyRead = None,
        lastSetByScript = None, passthrough = []\<rparr>
   \<and> loadedCache (exampleEnv\<lparr>cacheFile :=
         Malformed (Error ''Unexpected token < in JSON at position 0'')\<rparr>) =
       \<lparr>updatedAt = 1700000000, lastNonEmptyNonOwned = None, emptyRead = None,
        lastSetByScript = None, passthrough = []\<rparr>
   \<and> loadedCache (exampleEnv\<lparr>cacheFile := Holds (earlierCacheJson 1)\<rparr>) =
       \<lparr>updatedAt = 1699999999,
        lastNonEmptyNonOwned = Some \<lparr>text' = ascii ''Meeting'', emoji' = ascii '':calendar:'',
          expiration' = 1699990000, observedAt = 1699980000\<rparr>,
        emptyRead = Some \<lparr>lastSeenAt = 1699999990, consecutiveCount = 1\<rparr>,
        lastSetByScript = None, passthrough = []\<rparr>
   \<and> cacheSchema_safeParse (JObject [(ascii ''updatedAt'', JNumber (Finite 1699999999))]) =
       Some \<lparr>updatedAt = 1699999999, lastNonEmptyNonOwned = None, emptyRead = None,
        lastSetByScript = None, passthrough = []\<rparr>
   \<and> fst (ascii ''futureField'', JBool True) \<notin> set cacheSchema_keys
   \<and> fst (ascii ''__proto__'', JNull) \<notin> set cacheSchema_keys
   \<and> map_option updatedAt
       (cacheSchema_safeParse (JObject ([(ascii ''updatedAt'', JNumber (Finite 1699999999))]
         @ [(ascii ''futureField'', JBool True), (ascii ''__proto__'', JNull)]))) =
       Some 1699999999"
proof -
  let ?bad = "JObject [(ascii ''updatedAt'', JString (ascii ''yesterday''))]"
  let ?b = "exampleEnv\<lparr>cacheFile := Holds ?bad\<rparr>"
  let ?m = "exampleEnv\<lparr>cacheFile :=
         Malformed (Error ''Unexpected token < in JSON at position 0'')\<rparr>"
  let ?h = "exampleEnv\<lparr>cacheFile := Holds (earlierCacheJson 1)\<rparr>"
  let ?kvs = "[(ascii ''updatedAt'', JNumber (Finite 1699999999))]"
  let ?extra = "[(ascii ''futureField'', JBool True), (ascii ''__proto__'', JNull)]"
  let ?c = "\<lparr>updatedAt = 1699999999, lastNonEmptyNonOwned = None, emptyRead = None,
        lastSetByScript = None, passthrough = []\<rparr>"
  let ?e = "\<lparr>updatedAt = 1699999999,
        lastNonEmptyNonOwned = Some \<lparr>text' = ascii ''Meeting'', emoji' = ascii '':calendar:'',
          expiration' = 1699990000, observedAt = 1699980000\<rparr>,
        emptyRead = Some \<lparr>lastSeenAt = 1699999990, consecutiveCount = 1\<rparr>,
        lastSetByScript = None, passthrough = []\<rparr>"
  have a: "cacheFile exampleEnv = Absent" "now_loadCache exampleEnv = 1700000000"
    by (simp_all add: exampleEnv_simps)
  have b: "cacheFile ?b = Holds ?bad" "cacheSchema_safeParse ?bad = None"
    "now_loadCache ?b = 1700000000"
    by (simp_all add: exampleEnv_simps cacheSchema_safeParse_def z_number_finite_min0_def
        ascii_def)
  have m: "cacheFile ?m = Malformed (Error ''Unexpected token < in JSON at position 0'')"
    "now_loadCache ?m = 1700000000"
    by (simp_all add: exampleEnv_simps)
  have h: "cacheFile ?h = Holds (earlierCacheJson 1)"
    "cacheSchema_safeParse (earlierCacheJson 1) = Some ?e"
    by (simp_all add: earlierCache_parsed)
  have c: "cacheSchema_safeParse (JObject ?kvs) = Some ?c"
    by (simp add: cacheSchema_safeParse_def z_number_finite_min0_def z_optional_def ascii_def
        cacheSchema_keys_def)
  have d: "\<forall>kv \<in> set ?extra. fst kv \<notin> set cacheSchema_keys"
    by (simp add: cacheSchema_keys_def ascii_def)
  have "loadedCache exampleEnv = freshCache 1700000000"
    using loadCache_recovers [of exampleEnv JNull ?c ?kvs ?extra] a
    by (simp add: freshCache_def)
  moreover have "loadedCache ?b = freshCache 1700000000"
    using loadCache_recovers [of ?b JNull ?c ?kvs ?extra] b
    by (simp add: freshCache_def)
  moreover have "loadedCache ?m = freshCache 1700000000"
    using loadCache_recovers [of ?m JNull ?c ?kvs ?extra] m
    by (simp add: freshCache_def)
  moreover have "loadedCache ?h = ?e"
    using loadCache_recovers [of ?h "earlierCacheJson 1" ?e ?kvs ?extra] h
    by blast
  moreover have "map_option updatedAt (cacheSchema_safeParse (JObject (?kvs @ ?extra))) =
      Some 1699999999"
  proof -
    from loadCache_recovers [of exampleEnv JNull ?c ?kvs ?extra] c d
    obtain kept where "cacheSchema_safeParse (JObject (?kvs @ ?extra)) =
        Some (?c\<lparr>passthrough := kept\<rparr>)"
      by blast
    then show ?thesis
      by simp
  qed
  ultimately show ?thesis
    using a b c d by (simp add: freshCache_def)
qed

section \<open>What the decision does not depend on\<close>




































lemma earlierCache_counted:
  "0 \<le> n \<Longrightarrow> cacheSchema_safeParse (earlierCacheJson n) =
     Some \<lparr>updatedAt = 1699999999,
       lastNonEmptyNonOwned = Some \<lparr>text' = ascii ''Meeting'', emoji' = ascii '':calendar:'',
         expiration' = 1699990000, observedAt = 1699980000\<rparr>,
       emptyRead = Some \<lparr>lastSeenAt = 1699999990, consecutiveCount = n\<rparr>,
       lastSetByScript = None, passthrough = []\<rparr>"
  "n < 0 \<Longrightarrow> cacheSchema_safeParse (earlierCacheJson n) = None"
  by (simp_all add: earlierCacheJson_def cacheSchema_safeParse_def z_number_finite_min0_def
      z_optional_def z_string_def z_number_int_min0_def lastNonEmptyNonOwned_schema_def
      emptyRead_schema_def cacheSchema_keys_def ascii_def)


text \<open>
  Claim C8, as stated, fails in its first part: \<open>loadCache\<close> validates the \<open>emptyRead\<close>
  field of the cache file, and a file whose \<open>emptyRead\<close> is invalid is discarded as a
  whole. Two runs whose cache files differ only in \<open>emptyRead.consecutiveCount\<close>
  (\<open>1\<close> and \<open>-1\<close>) leave different cache files behind: the first keeps the stored
  \<open>lastNonEmptyNonOwned\<close>, the second has lost it.
\<close>

theorem emptyRead_validation_counterexample:
  "map_option lastNonEmptyNonOwned (cacheFileAfter (events (main
       (exampleEnv\<lparr>cacheFile := Holds (earlierCacheJson 1)\<rparr>)))) =
     Some (Some \<lparr>text' = ascii ''Meeting'', emoji' = ascii '':calendar:'',
                  expiration' = 1699990000, observedAt = 1699980000\<rparr>)
   \<and> map_option lastNonEmptyNonOwned (cacheFileAfter (events (main
       (exampleEnv\<lparr>cacheFile := Holds (earlierCacheJson (- 1))\<rparr>)))) = Some None"
proof -
  let ?a = "exampleEnv\<lparr>cacheFile := Holds (earlierCacheJson 1)\<rparr>"
  let ?b = "exampleEnv\<lparr>cacheFile := Holds (earlierCacheJson (- 1))\<rparr>"
  have k: "ok noProfileResponse" "ok \<lparr>ok = True, error = None\<rparr>"
    by (simp_all add: noProfileResponse_def)
  have a: "loadConfiguration_result ?a = Inr exampleConfig" "\<not> isl (pgrep_Spotify ?a)"
    "snd (getSlackProfileWithRetry ?a (slackToken exampleConfig)) = Inr noProfileResponse"
    "ok noProfileResponse" "writeFile_first ?a = None" "playerStateOf ?a = playing"
    "isSafeToOverride_of (mkRuntimeConfig ?a exampleConfig) noProfileResponse
     \<or> alwaysOverride (mkRuntimeConfig ?a exampleConfig)"
    "osascript_track ?a = Inr (ascii ''Artist - Song'')"
    "profileSet_result ?a = Inr \<lparr>ok = True, error = None\<rparr>"
    "ok \<lparr>ok = True, error = None\<rparr>"
    by (simp_all add: exampleEnv_simps retry_snd playerStateOf_eq playing_trimmed
        noProfile_safe k)
  have b: "loadConfiguration_result ?b = Inr exampleConfig" "\<not> isl (pgrep_Spotify ?b)"
    "snd (getSlackProfileWithRetry ?b (slackToken exampleConfig)) = Inr noProfileResponse"
    "ok noProfileResponse" "writeFile_first ?b = None" "playerStateOf ?b = playing"
    "isSafeToOverride_of (mkRuntimeConfig ?b exampleConfig) noProfileResponse
     \<or> alwaysOverride (mkRuntimeConfig ?b exampleConfig)"
    "osascript_track ?b = Inr (ascii ''Artist - Song'')"
    "profileSet_result ?b = Inr \<lparr>ok = True, error = None\<rparr>"
    "ok \<lparr>ok = True, error = None\<rparr>"
    by (simp_all add: exampleEnv_simps retry_snd playerStateOf_eq playing_trimmed
        noProfile_safe k)
  have c: "writeFile_second ?a = None" "writeFile_second ?b = None"
    by (simp_all add: exampleEnv_simps)
  have l: "lastNonEmptyNonOwned (loadedCache ?a) =
      Some \<lparr>text' = ascii ''Meeting'', emoji' = ascii '':calendar:'',
             expiration' = 1699990000, observedAt = 1699980000\<rparr>"
    "lastNonEmptyNonOwned (loadedCache ?b) = None"
    by (simp_all add: loadedCache_def loadCache_try_def parseCache_def earlierCache_counted
        freshCache_def)
  have n: "classified v rc cache noProfileResponse = cache" for v rc cache
    by (simp add: classified_def statusText_of_noProfile)
  from main_set_succeeded(3) [OF a c(1)] main_set_succeeded(3) [OF b c(2)] l
  show ?thesis
    by (simp add: n)
qed



end
